theory Spec2Isabelle
  imports Complex_Main "HOL-Library.AList"
begin

section \<open>Python values, errors and floats\<close>

text \<open>
  Exceptions of the Python source are values: a computation that can raise returns
  \<open>py_error + 'a\<close>, with \<open>Inl\<close> for the exception.
\<close>

datatype py_error = ValueError | ZeroDivisionError | IndexError | RuntimeError | TypeError
  | AttributeError | UnboundLocalError | KeyError

definition res_bind :: "py_error + 'a \<Rightarrow> ('a \<Rightarrow> py_error + 'b) \<Rightarrow> py_error + 'b" where
  "res_bind r f = (case r of Inl e \<Rightarrow> Inl e | Inr x \<Rightarrow> f x)"

text \<open>
  A Python float is idealised as a real number: rounding, overflow and the special values
  of IEEE arithmetic are not part of a Python-level float here. What is kept is the
  control flow of float division: \<open>a / b\<close> raises \<open>ZeroDivisionError\<close> when \<open>b\<close> is zero.
\<close>

definition py_truediv :: "real \<Rightarrow> real \<Rightarrow> py_error + real" where
  "py_truediv a b = (if b = 0 then Inl ZeroDivisionError else Inr (a / b))"

text \<open>
  \<open>xs[i]\<close> for a non-negative index: \<open>IndexError\<close> out of range.
\<close>

definition py_index :: "'a list \<Rightarrow> nat \<Rightarrow> py_error + 'a" where
  "py_index xs i = (if i < length xs then Inr (xs ! i) else Inl IndexError)"

text \<open>
  \<open>numpy.log\<close> returns a \<open>numpy.float64\<close> and never raises: the logarithm of zero is
  \<open>-inf\<close>, that of a negative number is \<open>nan\<close>. Division of two \<open>numpy.float64\<close> never
  raises either. The results are therefore reals extended by the two infinities and
  \<open>nan\<close>. The divisor of \<open>np_truediv\<close> is always a logarithm, so a zero divisor is the
  positive zero.
\<close>

datatype npfloat = Fin real | PInf | NInf | NaN

definition np_log :: "real \<Rightarrow> npfloat" where
  "np_log x = (if 0 < x then Fin (ln x) else if x = 0 then NInf else NaN)"

fun np_truediv :: "npfloat \<Rightarrow> npfloat \<Rightarrow> npfloat" where
  "np_truediv NaN _ = NaN"
| "np_truediv _ NaN = NaN"
| "np_truediv (Fin a) (Fin b) =
     (if b \<noteq> 0 then Fin (a / b) else if 0 < a then PInf else if a < 0 then NInf else NaN)"
| "np_truediv (Fin a) PInf = Fin 0"
| "np_truediv (Fin a) NInf = Fin 0"
| "np_truediv PInf (Fin b) = (if 0 \<le> b then PInf else NInf)"
| "np_truediv NInf (Fin b) = (if 0 \<le> b then NInf else PInf)"
| "np_truediv PInf PInf = NaN"
| "np_truediv PInf NInf = NaN"
| "np_truediv NInf PInf = NaN"
| "np_truediv NInf NInf = NaN"

text \<open>The comparison \<open>x < y\<close> of two \<open>numpy.float64\<close>: false whenever one side is \<open>nan\<close>.\<close>

fun np_lt :: "npfloat \<Rightarrow> npfloat \<Rightarrow> bool" where
  "np_lt NaN _ = False"
| "np_lt _ NaN = False"
| "np_lt (Fin a) (Fin b) = (a < b)"
| "np_lt (Fin a) PInf = True"
| "np_lt (Fin a) NInf = False"
| "np_lt PInf _ = False"
| "np_lt NInf NInf = False"
| "np_lt NInf _ = True"

text \<open>
  The builtin \<open>min\<close> on a list: \<open>ValueError\<close> on the empty list, otherwise the first
  element, replaced by each later element that compares smaller.
\<close>

definition py_min :: "npfloat list \<Rightarrow> py_error + npfloat" where
  "py_min xs = (case xs of [] \<Rightarrow> Inl ValueError
                | x # rest \<Rightarrow> Inr (foldl (\<lambda>m y. if np_lt y m then y else m) x rest))"

section \<open>pyadjoint/verification.py\<close>

subsection \<open>convergence\_rates\<close>

text \<open>
  The body of the loop of \<open>convergence_rates\<close> for one index \<open>i\<close>:
  \<^verbatim>\<open>log(E_values[i]/E_values[i-1])/log(eps_values[i]/eps_values[i-1])\<close>,
  the operands evaluated from left to right.
\<close>

definition rate_at :: "real list \<Rightarrow> real list \<Rightarrow> nat \<Rightarrow> py_error + npfloat" where
  "rate_at E_values eps_values i =
     res_bind (py_index E_values i) (\<lambda>e1.
     res_bind (py_index E_values (i - 1)) (\<lambda>e0.
     res_bind (py_truediv e1 e0) (\<lambda>q.
     res_bind (py_index eps_values i) (\<lambda>s1.
     res_bind (py_index eps_values (i - 1)) (\<lambda>s0.
     res_bind (py_truediv s1 s0) (\<lambda>p.
     Inr (np_truediv (np_log q) (np_log p))))))))"

text \<open>The loop \<^verbatim>\<open>for i in range(1, len(eps_values)): r.append(...)\<close>.\<close>

fun rates_loop :: "real list \<Rightarrow> real list \<Rightarrow> nat list \<Rightarrow> npfloat list \<Rightarrow> py_error + npfloat list" where
  "rates_loop E_values eps_values [] r = Inr r"
| "rates_loop E_values eps_values (i # is) r =
     res_bind (rate_at E_values eps_values i) (\<lambda>x. rates_loop E_values eps_values is (r @ [x]))"

definition convergence_rates :: "real list \<Rightarrow> real list \<Rightarrow> py_error + npfloat list" where
  "convergence_rates E_values eps_values =
     rates_loop E_values eps_values [1 ..< length eps_values] []"

subsection \<open>taylor\_test\<close>

text \<open>
  The point \<open>m\<close> and the direction \<open>h\<close> are either one overloaded object or a Python
  list or tuple of them.
\<close>

datatype 'a arg = Obj 'a | PyList "'a list" | PyTuple "'a list"

fun is_list_or_tuple :: "'a arg \<Rightarrow> bool" where
  "is_list_or_tuple (Obj _) = False"
| "is_list_or_tuple (PyList _) = True"
| "is_list_or_tuple (PyTuple _) = True"

text \<open>
  The methods \<open>_ad_add\<close>, \<open>_ad_mul\<close> and \<open>_ad_dot\<close> of the overloaded type of the
  controls are parameters of the model.
\<close>

record 'a overloaded_type =
  ad_add :: "'a \<Rightarrow> 'a \<Rightarrow> 'a"
  ad_mul :: "'a \<Rightarrow> real \<Rightarrow> 'a"
  ad_dot :: "'a \<Rightarrow> 'a \<Rightarrow> real"

text \<open>
  The class \<open>Enlist\<close> of \<open>pyadjoint.enlisting\<close> is not among the source files. Its two
  uses are parameters: \<open>Enlist\<close> gives the list an argument is turned into, and
  \<open>delist\<close> of the list built from the argument \<open>x\<close> turns a list back. Unwrapping an
  empty list fails: \<open>None\<close> stands for the \<open>IndexError\<close> of \<open>list_arg[0]\<close>.
\<close>

record 'a enlisting =
  Enlist :: "'a arg \<Rightarrow> 'a list"
  delist :: "'a arg \<Rightarrow> 'a list \<Rightarrow> 'a arg option"

text \<open>
  The usual behaviour of \<open>Enlist\<close>, used for concrete runs: a list or tuple is taken as
  it is, anything else is wrapped into a list of one element and unwrapped by \<open>delist\<close>.
\<close>

fun enlist_std :: "'a arg \<Rightarrow> 'a list" where
  "enlist_std (Obj x) = [x]"
| "enlist_std (PyList xs) = xs"
| "enlist_std (PyTuple xs) = xs"

fun delist_std :: "'a arg \<Rightarrow> 'a list \<Rightarrow> 'a arg option" where
  "delist_std (Obj x) [] = None"
| "delist_std (Obj x) (r # ret) = Some (Obj r)"
| "delist_std (PyList xs) ret = Some (PyList ret)"
| "delist_std (PyTuple xs) ret = Some (PyList ret)"

definition std_enlisting :: "'a enlisting" where
  "std_enlisting = \<lparr>Enlist = enlist_std, delist = delist_std\<rparr>"

text \<open>
  The functional \<open>J\<close>: its list of controls, its evaluation \<open>J(m)\<close> and its
  \<open>derivative()\<close>. Both calls may change the state of the functional (its tape), which
  is threaded through as \<open>'s\<close>; the order of the calls of \<open>J\<close> is thus visible in the
  final state.
\<close>

record ('a, 's) reduced_functional =
  controls :: "'a list"
  call :: "'a arg \<Rightarrow> 's \<Rightarrow> real \<times> 's"
  derivative :: "'s \<Rightarrow> 'a arg \<times> 's"

text \<open>\<^verbatim>\<open>ret = [mi._ad_add(hi._ad_mul(eps)) for mi,hi in zip(ms,hs)]; return ms.delist(ret)\<close>\<close>

definition perturbe ::
  "'a overloaded_type \<Rightarrow> 'a enlisting \<Rightarrow> 'a arg \<Rightarrow> 'a list \<Rightarrow> real \<Rightarrow> py_error + 'a arg" where
  "perturbe T L m hs eps =
     (case delist L m (map (\<lambda>(mi, hi). ad_add T mi (ad_mul T hi eps)) (zip (Enlist L m) hs)) of
        None \<Rightarrow> Inl IndexError
      | Some p \<Rightarrow> Inr p)"

text \<open>\<^verbatim>\<open>abs(Jp - Jm - eps*dJdm - 0.5*eps**2*Hm)\<close>\<close>

definition taylor_residual :: "real \<Rightarrow> real \<Rightarrow> real \<Rightarrow> real \<Rightarrow> real \<Rightarrow> real" where
  "taylor_residual Jp Jm eps dJdm Hm = \<bar>Jp - Jm - eps * dJdm - 0.5 * eps ^ 2 * Hm\<bar>"

text \<open>\<^verbatim>\<open>epsilons = [0.01/2**i for i in range(4)]\<close>\<close>

definition epsilons :: "real list" where
  "epsilons = map (\<lambda>i. 0.01 / 2 ^ i) [0 ..< 4]"

text \<open>The loop over the step sizes: each round evaluates \<open>J\<close> once and appends one residual.\<close>

fun residuals_loop ::
  "'a overloaded_type \<Rightarrow> 'a enlisting \<Rightarrow> ('a, 's) reduced_functional \<Rightarrow> 'a arg \<Rightarrow> 'a list \<Rightarrow>
   real \<Rightarrow> real \<Rightarrow> real \<Rightarrow> real list \<Rightarrow> real list \<Rightarrow> 's \<Rightarrow> (py_error + real list) \<times> 's" where
  "residuals_loop T L J m hs Jm dJdm Hm [] residuals s = (Inr residuals, s)"
| "residuals_loop T L J m hs Jm dJdm Hm (eps # rest) residuals s =
     (case perturbe T L m hs eps of
        Inl e \<Rightarrow> (Inl e, s)
      | Inr p \<Rightarrow>
          (case call J p s of (Jp, s') \<Rightarrow>
             residuals_loop T L J m hs Jm dJdm Hm rest
               (residuals @ [taylor_residual Jp Jm eps dJdm Hm]) s'))"

text \<open>
  \<^verbatim>\<open>dJdm = sum(hi._ad_dot(di) for hi,di in zip(hs,ds))\<close>: the builtin \<open>sum\<close> starts at 0
  and adds from the left.
\<close>

definition contract :: "'a overloaded_type \<Rightarrow> 'a list \<Rightarrow> 'a list \<Rightarrow> real" where
  "contract T hs ds = foldl (+) 0 (map (\<lambda>(hi, di). ad_dot T hi di) (zip hs ds))"

text \<open>
  \<open>taylor_test(J, m, h, dJdm=None, Hm=0)\<close>. The printed lines and the logged advisory
  for a residual below \<open>1E-15\<close> do not change the result and are left out.
\<close>

definition taylor_test ::
  "'a overloaded_type \<Rightarrow> 'a enlisting \<Rightarrow> ('a, 's) reduced_functional \<Rightarrow> 'a arg \<Rightarrow> 'a arg \<Rightarrow>
   real option \<Rightarrow> real \<Rightarrow> 's \<Rightarrow> (py_error + npfloat) \<times> 's" where
  "taylor_test T L J m h dJdm Hm s =
     (if length (controls J) > 1 \<and> \<not> is_list_or_tuple m then (Inl ValueError, s)
      else if length (controls J) > 1 \<and> \<not> is_list_or_tuple h then (Inl ValueError, s)
      else
        let hs = Enlist L h in
        case call J m s of (Jm, s1) \<Rightarrow>
        case (case dJdm of
                None \<Rightarrow> (case derivative J s1 of (d, s2) \<Rightarrow> (contract T hs (Enlist L d), s2))
              | Some d \<Rightarrow> (d, s1)) of (dJdm', s2) \<Rightarrow>
        case residuals_loop T L J m hs Jm dJdm' Hm epsilons [] s2 of (residuals, s3) \<Rightarrow>
          (res_bind residuals (\<lambda>rs. res_bind (convergence_rates rs epsilons) py_min), s3))"

text \<open>The part of \<open>taylor_test\<close> after the two checks of the arguments.\<close>

definition taylor_body ::
  "'a overloaded_type \<Rightarrow> 'a enlisting \<Rightarrow> ('a, 's) reduced_functional \<Rightarrow> 'a arg \<Rightarrow> 'a arg \<Rightarrow>
   real option \<Rightarrow> real \<Rightarrow> 's \<Rightarrow> (py_error + npfloat) \<times> 's" where
  "taylor_body T L J m h dJdm Hm s =
     (let hs = Enlist L h in
      case call J m s of (Jm, s1) \<Rightarrow>
      case (case dJdm of
              None \<Rightarrow> (case derivative J s1 of (d, s2) \<Rightarrow> (contract T hs (Enlist L d), s2))
            | Some d \<Rightarrow> (d, s1)) of (dJdm', s2) \<Rightarrow>
      case residuals_loop T L J m hs Jm dJdm' Hm epsilons [] s2 of (residuals, s3) \<Rightarrow>
        (res_bind residuals (\<lambda>rs. res_bind (convergence_rates rs epsilons) py_min), s3))"

subsection \<open>Concrete controls and functionals\<close>

text \<open>Real numbers as controls: addition, scaling and the product as contraction.\<close>

definition real_type :: "real overloaded_type" where
  "real_type = \<lparr>ad_add = (\<lambda>a b. a + b), ad_mul = (\<lambda>a c. a * c), ad_dot = (\<lambda>a b. a * b)\<rparr>"

text \<open>
  A functional of one real control given by a function \<open>f\<close> and its derivative \<open>f'\<close>. Its
  state is the list of the points it has been evaluated at, in order, together with the
  last point (at which \<open>derivative()\<close> is taken).
\<close>

fun the_point :: "real arg \<Rightarrow> real" where
  "the_point (Obj x) = x"
| "the_point (PyList xs) = (case xs of [] \<Rightarrow> 0 | x # _ \<Rightarrow> x)"
| "the_point (PyTuple xs) = (case xs of [] \<Rightarrow> 0 | x # _ \<Rightarrow> x)"

definition logged_functional ::
  "nat \<Rightarrow> (real \<Rightarrow> real) \<Rightarrow> (real \<Rightarrow> real) \<Rightarrow> (real, real arg list) reduced_functional" where
  "logged_functional n f f' =
     \<lparr>controls = replicate n 0,
      call = (\<lambda>m s. (f (the_point m), s @ [m])),
      derivative = (\<lambda>s. (Obj (f' (the_point (last s))), s))\<rparr>"

section \<open>fenics\_adjoint/solving.py: the objects\<close>

text \<open>
  The numerical backend (dolfin or firedrake, ufl, and the \<open>compat\<close> layer over them) is
  outside the source files: its objects are the values of a type \<open>'v\<close> and every call
  into it is a field of the record \<open>backend\<close> below, about which nothing is assumed.
  A backend call that changes an argument in place returns the changed value instead.
  Backend calls are taken to return; an exception raised inside the backend is not part
  of the model.

  The classes tested with \<open>isinstance\<close> are pairwise unrelated in the backends, so every
  object has one of them, or none (\<open>ClsOther\<close>).
\<close>

datatype pyclass = ClsForm | ClsEquation | ClsFunction | ClsConstant | ClsExpression
  | ClsDirichletBC | ClsMesh | ClsOther

text \<open>Python values that occur as arguments, keyword arguments and results.\<close>

datatype 'v pyval = PyNone | PyBool bool | PyInt int | PyFloat real | PyStr string | PyObj 'v
  | PySeq "'v pyval list" | PyDict "(string \<times> 'v pyval) list"

type_synonym 'v kwargs = "(string \<times> 'v pyval) list"

text \<open>
  A block variable, as far as this file reads it: the object it stands for, the saved
  checkpoint of that object and the tangent-linear value.
\<close>

record 'v block_variable =
  bv_output :: 'v
  saved_output :: 'v
  tlm_value :: "'v option"

record 'v backend =
  backend_name :: string
  cls :: "'v \<Rightarrow> pyclass"
  attr :: "'v \<Rightarrow> string \<Rightarrow> 'v pyval option"
  coefficients :: "'v \<Rightarrow> 'v list"
  arguments :: "'v \<Rightarrow> 'v list"
  ufl_domain :: "'v \<Rightarrow> 'v"
  ufl_cargo :: "'v \<Rightarrow> 'v"
  has_integrals :: "'v \<Rightarrow> bool"
  form_empty :: "'v \<Rightarrow> bool"
  replace :: "'v \<Rightarrow> ('v \<times> 'v) list \<Rightarrow> 'v"
  expand_derivatives :: "'v \<Rightarrow> 'v"
  op_add :: "'v \<Rightarrow> 'v \<Rightarrow> 'v"
  op_sub :: "'v \<Rightarrow> 'v \<Rightarrow> 'v"
  op_mul :: "'v \<Rightarrow> 'v \<Rightarrow> 'v"
  op_neg :: "'v \<Rightarrow> 'v"
  zero_sub :: "'v \<Rightarrow> 'v"
  action :: "'v \<Rightarrow> 'v \<Rightarrow> 'v"
  adjoint :: "'v \<Rightarrow> 'v"
  backend_derivative :: "'v \<Rightarrow> 'v \<Rightarrow> 'v option \<Rightarrow> 'v"
  TrialFunction :: "'v \<Rightarrow> 'v"
  TestFunction :: "'v \<Rightarrow> 'v"
  SpatialCoordinate :: "'v \<Rightarrow> 'v"
  Function :: "'v \<Rightarrow> 'v"
  zero_Constant :: "'v \<Rightarrow> 'v"
  inner :: "'v \<Rightarrow> 'v \<Rightarrow> 'v"
  dx :: 'v
  function_space :: "'v \<Rightarrow> 'v"
  ad_function_space :: "'v \<Rightarrow> 'v option \<Rightarrow> 'v"
  bc_apply :: "'v \<Rightarrow> 'v \<Rightarrow> 'v"
  bc_apply2 :: "'v \<Rightarrow> 'v \<Rightarrow> 'v \<Rightarrow> 'v \<times> 'v"
  backend_solve :: "'v pyval list \<Rightarrow> 'v kwargs \<Rightarrow> 'v pyval"
  solve_assembled :: "'v \<Rightarrow> 'v \<Rightarrow> 'v \<Rightarrow> 'v"
  assemble :: "'v \<Rightarrow> 'v"
  assemble_system :: "'v \<Rightarrow> 'v \<Rightarrow> 'v list \<Rightarrow> 'v \<times> 'v"
  lu_solver_methods :: "'v pyval list"
  LUSolver_solve :: "'v pyval \<Rightarrow> 'v pyval \<Rightarrow> 'v \<Rightarrow> 'v \<Rightarrow> 'v \<Rightarrow> 'v"
  KrylovSolver_solve :: "'v pyval list \<Rightarrow> 'v pyval \<Rightarrow> 'v \<Rightarrow> 'v \<Rightarrow> 'v \<Rightarrow> 'v"
  create_function :: "'v \<Rightarrow> 'v"
  create_bc_homogenize :: "'v \<Rightarrow> 'v"
  create_bc_value :: "'v \<Rightarrow> 'v \<Rightarrow> 'v"
  assemble_adjoint_value :: "'v \<Rightarrow> 'v kwargs \<Rightarrow> 'v list option \<Rightarrow> 'v"
  linalg_solve :: "'v \<Rightarrow> 'v \<Rightarrow> 'v \<Rightarrow> 'v pyval list \<Rightarrow> 'v kwargs \<Rightarrow> 'v"
  function_from_vector :: "'v \<Rightarrow> 'v \<Rightarrow> 'v"
  extract_mesh_from_form :: "'v \<Rightarrow> 'v"
  extract_subfunction :: "'v option \<Rightarrow> 'v \<Rightarrow> 'v"
  annotate_tape :: "'v kwargs \<Rightarrow> bool \<times> 'v kwargs"
  pop_kwargs :: "string list \<Rightarrow> 'v kwargs \<Rightarrow> 'v kwargs \<times> 'v kwargs"
  block_variable :: "'v \<Rightarrow> 'v block_variable"
  create_block_variable :: "'v \<Rightarrow> 'v block_variable"

text \<open>
  The fields, where the name does not say it:
  \<^item> \<open>attr x name\<close> is \<open>getattr(x, name)\<close>, \<open>None\<close> when \<open>hasattr(x, name)\<close> is false;
  \<^item> \<open>has_integrals f\<close> is \<open>len(f.integrals()) > 0\<close>, \<open>form_empty f\<close> is \<open>f.empty()\<close>;
  \<^item> \<open>op_add\<close>, \<open>op_sub\<close>, \<open>op_mul\<close>, \<open>op_neg\<close> are the Python operators on two
    backend objects, \<open>zero_sub x\<close> is \<open>0 - x\<close>;
  \<^item> \<open>backend_derivative f u du\<close> is \<open>backend.derivative(f, u, du)\<close>, with \<open>None\<close> for a
    direction that is left out or is \<open>None\<close>;
  \<^item> \<open>Function V\<close> is \<open>backend.Function(V)\<close>, \<open>zero_Constant v\<close> is
    \<open>backend.Constant(numpy.zeros(v.ufl_shape))\<close>;
  \<^item> \<open>ad_function_space c mesh\<close> is \<open>c._ad_function_space(mesh)\<close>, and
    \<open>c._ad_function_space()\<close> for \<open>None\<close>;
  \<^item> \<open>bc_apply bc x\<close> is \<open>x\<close> after \<open>bc.apply(x)\<close>, \<open>bc_apply2 bc A b\<close> is the pair after
    \<open>bc.apply(A, b)\<close>;
  \<^item> \<open>backend_solve args kwargs\<close> is \<open>backend.solve(*args, **kwargs)\<close>;
    \<open>solve_assembled A func b\<close> is \<open>func\<close> after \<open>backend.solve(A, func.vector(), b)\<close>;
  \<^item> \<open>LUSolver_solve method parameters A x b\<close> is the function \<open>x\<close> after
    \<open>solver = LUSolver(method); solver.parameters.update(parameters);
    solver.solve(A, x.vector(), b)\<close>, and \<open>KrylovSolver_solve\<close> the same for
    \<open>KrylovSolver(*args)\<close>;
  \<^item> \<open>linalg_solve A x b args kwargs\<close> is \<open>x\<close> after
    \<open>compat.linalg_solve(A, x.vector(), b, *args, **kwargs)\<close>;
  \<^item> \<open>create_bc_homogenize bc\<close> is \<open>compat.create_bc(bc, homogenize=True)\<close>,
    \<open>create_bc_value bc v\<close> is \<open>compat.create_bc(bc, value=v)\<close>;
  \<^item> \<open>assemble_adjoint_value f kwargs bcs\<close> is \<open>compat.assemble_adjoint_value(f, **kwargs)\<close>
    with the keyword \<open>bcs\<close> kept apart (\<open>None\<close> when it is not passed);
  \<^item> \<open>annotate_tape kwargs\<close> (of \<open>pyadjoint.tape\<close>) gives its result and the dictionary
    as it leaves it; \<open>pop_kwargs keys kwargs\<close> (the class method of \<open>Block\<close>, called with
    the class attribute \<open>pop_kwargs_keys\<close>) gives the dictionary it returns and the one
    it leaves;
  \<^item> \<open>block_variable x\<close> is the property \<open>x.block_variable\<close> of an overloaded object,
    \<open>create_block_variable x\<close> the result of \<open>x.create_block_variable()\<close>.
\<close>

subsection \<open>Python operations on these values\<close>

definition isinstance :: "'v backend \<Rightarrow> 'v pyval \<Rightarrow> pyclass \<Rightarrow> bool" where
  "isinstance B x c = (case x of PyObj v \<Rightarrow> cls B v = c | _ \<Rightarrow> False)"

definition py_getattr :: "'v backend \<Rightarrow> 'v pyval \<Rightarrow> string \<Rightarrow> py_error + 'v pyval" where
  "py_getattr B x name =
     (case x of
        PyObj v \<Rightarrow> (case attr B v name of None \<Rightarrow> Inl AttributeError | Some a \<Rightarrow> Inr a)
      | _ \<Rightarrow> Inl AttributeError)"

definition py_hasattr :: "'v backend \<Rightarrow> 'v pyval \<Rightarrow> string \<Rightarrow> bool" where
  "py_hasattr B x name = (case x of PyObj v \<Rightarrow> attr B v name \<noteq> None | _ \<Rightarrow> False)"

text \<open>
  A value used as an object of the backend (a method of it is called): anything else has
  no such method.
\<close>

definition as_obj :: "'v pyval \<Rightarrow> py_error + 'v" where
  "as_obj x = (case x of PyObj v \<Rightarrow> Inr v | _ \<Rightarrow> Inl AttributeError)"

definition as_seq :: "'v pyval \<Rightarrow> py_error + 'v pyval list" where
  "as_seq x = (case x of PySeq xs \<Rightarrow> Inr xs | _ \<Rightarrow> Inl TypeError)"

definition as_dict :: "'v pyval \<Rightarrow> py_error + 'v kwargs" where
  "as_dict x = (case x of PyDict d \<Rightarrow> Inr d | _ \<Rightarrow> Inl TypeError)"

text \<open>Truth value of a Python value; an object of the backend counts as true.\<close>

fun py_truthy :: "'v pyval \<Rightarrow> bool" where
  "py_truthy PyNone = False"
| "py_truthy (PyBool b) = b"
| "py_truthy (PyInt n) = (n \<noteq> 0)"
| "py_truthy (PyFloat x) = (x \<noteq> 0)"
| "py_truthy (PyStr s) = (s \<noteq> [])"
| "py_truthy (PyObj v) = True"
| "py_truthy (PySeq xs) = (xs \<noteq> [])"
| "py_truthy (PyDict d) = (d \<noteq> [])"

text \<open>Dictionaries with string keys: \<open>d.pop(k, default)\<close>, \<open>d.get(k, default)\<close>, \<open>d.update(e)\<close>.\<close>

definition dict_pop :: "string \<Rightarrow> 'v pyval \<Rightarrow> 'v kwargs \<Rightarrow> 'v pyval \<times> 'v kwargs" where
  "dict_pop k d kw = (case map_of kw k of None \<Rightarrow> (d, kw) | Some v \<Rightarrow> (v, AList.delete k kw))"

definition dict_get :: "string \<Rightarrow> 'v pyval \<Rightarrow> 'v kwargs \<Rightarrow> 'v pyval" where
  "dict_get k d kw = (case map_of kw k of None \<Rightarrow> d | Some v \<Rightarrow> v)"

definition dict_update :: "'v kwargs \<Rightarrow> 'v kwargs \<Rightarrow> 'v kwargs" where
  "dict_update d e = foldl (\<lambda>d (k, v). AList.update k v d) d e"

text \<open>
  The solver arguments a caller passes are kept as they come, so the operations on them
  are those of Python on an arbitrary value: \<open>len(x)\<close>, \<open>"k" in x\<close>, \<open>x["k"]\<close>,
  \<open>x[0]\<close>, \<open>x.get("k", d)\<close>, and the unpackings \<open>*x\<close> and \<open>**x\<close> in a call. A
  sequence, a string and a dictionary have a length and can be iterated (a dictionary over
  its keys, a string over its characters); only a dictionary has \<open>get\<close> and string keys.
  \<open>None\<close>, a number and an object of the backend are no containers.
\<close>

definition py_len :: "'v pyval \<Rightarrow> py_error + nat" where
  "py_len x = (case x of
                 PySeq xs \<Rightarrow> Inr (length xs)
               | PyStr s \<Rightarrow> Inr (length s)
               | PyDict d \<Rightarrow> Inr (length (remdups (map fst d)))
               | _ \<Rightarrow> Inl TypeError)"

definition is_substring :: "string \<Rightarrow> string \<Rightarrow> bool" where
  "is_substring k s = list_ex (\<lambda>i. take (length k) (drop i s) = k) [0..<Suc (length s)]"

definition py_contains :: "string \<Rightarrow> 'v pyval \<Rightarrow> py_error + bool" where
  "py_contains k x = (case x of
                        PyDict d \<Rightarrow> Inr (map_of d k \<noteq> None)
                      | PySeq xs \<Rightarrow> Inr (PyStr k \<in> set xs)
                      | PyStr s \<Rightarrow> Inr (is_substring k s)
                      | _ \<Rightarrow> Inl TypeError)"

definition py_getitem :: "'v pyval \<Rightarrow> string \<Rightarrow> py_error + 'v pyval" where
  "py_getitem x k = (case x of
                       PyDict d \<Rightarrow> (case map_of d k of None \<Rightarrow> Inl KeyError | Some v \<Rightarrow> Inr v)
                     | _ \<Rightarrow> Inl TypeError)"

definition py_first :: "'v pyval \<Rightarrow> py_error + 'v pyval" where
  "py_first x = (case x of
                   PySeq xs \<Rightarrow> py_index xs 0
                 | PyStr s \<Rightarrow> (case s of [] \<Rightarrow> Inl IndexError | c # cs \<Rightarrow> Inr (PyStr [c]))
                 | PyDict d \<Rightarrow> Inl KeyError
                 | _ \<Rightarrow> Inl TypeError)"

definition py_get :: "'v pyval \<Rightarrow> string \<Rightarrow> 'v pyval \<Rightarrow> py_error + 'v pyval" where
  "py_get x k d = (case x of PyDict m \<Rightarrow> Inr (dict_get k d m) | _ \<Rightarrow> Inl AttributeError)"

definition py_star :: "'v pyval \<Rightarrow> py_error + 'v pyval list" where
  "py_star x = (case x of
                  PySeq xs \<Rightarrow> Inr xs
                | PyStr s \<Rightarrow> Inr (map (\<lambda>c. PyStr [c]) s)
                | PyDict d \<Rightarrow> Inr (map PyStr (remdups (map fst d)))
                | _ \<Rightarrow> Inl TypeError)"

definition py_starstar :: "'v pyval \<Rightarrow> py_error + 'v kwargs" where
  "py_starstar x = (case x of PyDict d \<Rightarrow> Inr d | _ \<Rightarrow> Inl TypeError)"

section \<open>fenics\_adjoint/solving.py: the solve blocks\<close>

subsection \<open>The state of a block\<close>

datatype block_class = GenericSolveBlock | SolveLinearSystemBlock | SolveVarFormBlock

text \<open>
  The attributes of a \<open>GenericSolveBlock\<close>, with the two attributes that
  \<open>SolveLinearSystemBlock\<close> adds, the dependencies and outputs kept by the base class
  \<open>Block\<close>, and \<open>block_class\<close> for the dispatch of overridden methods. The calls of
  the four callbacks made by the methods of the block are recorded in \<open>cb_calls\<close>, the
  callback with its argument, in the order of the calls.
\<close>

record 'v solve_block =
  block_class :: block_class
  adj_cb :: "'v pyval"
  adj_bdy_cb :: "'v pyval"
  adj2_cb :: "'v pyval"
  adj2_bdy_cb :: "'v pyval"
  adj_sol :: "'v option"
  forward_args :: "'v pyval"
  forward_kwargs :: "'v pyval"
  adj_args :: "'v pyval"
  adj_kwargs :: "'v pyval"
  assemble_kwargs :: "'v kwargs"
  lhs :: 'v
  rhs :: "'v pyval"
  func :: 'v
  blk_function_space :: 'v
  bcs :: "'v list"
  linear :: bool
  dependencies :: "'v block_variable list"
  outputs :: "'v block_variable list"
  ident_zeros_tol :: "'v pyval"
  blk_assemble_system :: bool
  cb_calls :: "('v pyval \<times> 'v) list"

text \<open>
  Modelled from the spec: \<open>Block.add_dependency\<close> and \<open>Block.add_output\<close> of
  \<open>pyadjoint.block\<close> are not among the source files. \<open>add_dependency(bv, dedup)\<close>
  registers a consumed block variable, silently skipping if already present when
  \<open>dedup\<close> is requested; \<open>add_output(bv)\<close> attaches a produced block variable.
\<close>

definition add_dependency :: "'v backend \<Rightarrow> 'v \<Rightarrow> bool \<Rightarrow> 'v solve_block \<Rightarrow> 'v solve_block" where
  "add_dependency B dep no_duplicates blk =
     (if no_duplicates \<and> block_variable B dep \<in> set (dependencies blk) then blk
      else blk\<lparr>dependencies := dependencies blk @ [block_variable B dep]\<rparr>)"

definition add_output :: "'v block_variable \<Rightarrow> 'v solve_block \<Rightarrow> 'v solve_block" where
  "add_output bv blk = blk\<lparr>outputs := outputs blk @ [bv]\<rparr>"

text \<open>\<^verbatim>\<open>for c in ...: self.add_dependency(c, no_duplicates=True)\<close>\<close>

definition add_dependencies :: "'v backend \<Rightarrow> 'v list \<Rightarrow> 'v solve_block \<Rightarrow> 'v solve_block" where
  "add_dependencies B cs blk = foldl (\<lambda>b c. add_dependency B c True b) blk cs"

subsection \<open>Construction\<close>

text \<open>
  The boundary conditions given to a block: \<open>None\<close>, one object, or a list of objects.
  \<open>Enlist\<close> is the parameter introduced for \<open>taylor_test\<close>.
\<close>

definition objs_of :: "'v pyval list \<Rightarrow> py_error + 'v list" where
  "objs_of xs = foldr (\<lambda>x r. res_bind (as_obj x) (\<lambda>v. res_bind r (\<lambda>vs. Inr (v # vs)))) xs (Inr [])"

definition enlist_bcs :: "'v enlisting \<Rightarrow> 'v pyval \<Rightarrow> py_error + 'v list" where
  "enlist_bcs L b =
     (case b of
        PyNone \<Rightarrow> Inr []
      | PySeq xs \<Rightarrow> res_bind (objs_of xs) (\<lambda>vs. Inr (Enlist L (PyList vs)))
      | x \<Rightarrow> res_bind (as_obj x) (\<lambda>v. Inr (Enlist L (Obj v))))"

text \<open>
  \<open>GenericSolveBlock._init_solver_parameters(args, kwargs)\<close>: the four keywords are
  popped and their values stored as they are. The result is the block and the dictionary
  left.
\<close>

definition init_solver_parameters_generic ::
  "'v solve_block \<Rightarrow> 'v pyval list \<Rightarrow> 'v kwargs \<Rightarrow> py_error + ('v solve_block \<times> 'v kwargs)" where
  "init_solver_parameters_generic blk args kwargs =
     (case dict_pop ''forward_args'' (PySeq []) kwargs of (fa, kw1) \<Rightarrow>
      case dict_pop ''forward_kwargs'' (PyDict []) kw1 of (fk, kw2) \<Rightarrow>
      case dict_pop ''adj_args'' (PySeq []) kw2 of (aa, kw3) \<Rightarrow>
      case dict_pop ''adj_kwargs'' (PyDict []) kw3 of (ak, kw4) \<Rightarrow>
        Inr (blk\<lparr>forward_args := fa, forward_kwargs := fk, adj_args := aa, adj_kwargs := ak,
                 assemble_kwargs := []\<rparr>, kw4))"

text \<open>\<open>SolveLinearSystemBlock._init_solver_parameters\<close>; \<open>args\<close> is a tuple.\<close>

definition init_solver_parameters_linear_system ::
  "'v solve_block \<Rightarrow> 'v pyval list \<Rightarrow> 'v kwargs \<Rightarrow> py_error + ('v solve_block \<times> 'v kwargs)" where
  "init_solver_parameters_linear_system blk args kwargs =
     res_bind (init_solver_parameters_generic blk args kwargs) (\<lambda>(b0, kw).
     res_bind (py_len (forward_args b0)) (\<lambda>n1.
       let b1 = (if n1 \<le> 0 then b0\<lparr>forward_args := PySeq args\<rparr> else b0) in
     res_bind (py_len (adj_args b1)) (\<lambda>n2.
       let b2 = (if n2 \<le> 0 then b1\<lparr>adj_args := forward_args b1\<rparr> else b1)
       in Inr (b2, kw))))"

text \<open>
  \<open>SolveVarFormBlock._init_solver_parameters\<close>, its last two statements first.

  \<^verbatim>\<open>if "solver_parameters" in self.forward_kwargs and "mat_type" in ...["solver_parameters"]:\<close>
\<close>

definition var_form_mat_type :: "'v solve_block \<Rightarrow> py_error + 'v solve_block" where
  "var_form_mat_type blk =
     res_bind (py_contains ''solver_parameters'' (forward_kwargs blk)) (\<lambda>has_sp.
       if \<not> has_sp then Inr blk
       else
         res_bind (py_getitem (forward_kwargs blk) ''solver_parameters'') (\<lambda>sp.
         res_bind (py_contains ''mat_type'' sp) (\<lambda>has_mt.
           if \<not> has_mt then Inr blk
           else
             res_bind (py_getitem sp ''mat_type'') (\<lambda>mt.
               Inr (blk\<lparr>assemble_kwargs :=
                            AList.update ''mat_type'' mt (assemble_kwargs blk)\<rparr>)))))"

text \<open>\<^verbatim>\<open>if len(self.adj_kwargs) <= 0: ...\<close>; \<open>kwargs\<close> is the dictionary of the call.\<close>

definition var_form_adj_args :: "'v solve_block \<Rightarrow> 'v pyval \<Rightarrow> py_error + 'v solve_block" where
  "var_form_adj_args blk solver_parameters =
     res_bind (py_contains ''linear_solver'' solver_parameters) (\<lambda>has_ls.
       if \<not> has_ls then Inr blk
       else
         res_bind (py_getitem solver_parameters ''linear_solver'') (\<lambda>ls.
         res_bind (py_contains ''preconditioner'' solver_parameters) (\<lambda>has_pc.
           if \<not> has_pc then Inr (blk\<lparr>adj_args := PySeq [ls]\<rparr>)
           else
             res_bind (py_getitem solver_parameters ''preconditioner'') (\<lambda>pc.
               Inr (blk\<lparr>adj_args := PySeq [ls, pc]\<rparr>)))))"

definition var_form_adj_parameters ::
  "'v solve_block \<Rightarrow> 'v kwargs \<Rightarrow> py_error + 'v solve_block" where
  "var_form_adj_parameters blk kwargs =
     res_bind (py_len (adj_kwargs blk)) (\<lambda>n.
       if n \<le> 0 then
         let solver_parameters = dict_get ''solver_parameters'' (PyDict []) kwargs
         in res_bind (var_form_adj_args blk solver_parameters) (\<lambda>blk'.
              Inr (blk'\<lparr>adj_kwargs := solver_parameters\<rparr>))
       else Inr blk)"

definition init_solver_parameters_var_form ::
  "'v solve_block \<Rightarrow> 'v pyval list \<Rightarrow> 'v kwargs \<Rightarrow> py_error + ('v solve_block \<times> 'v kwargs)" where
  "init_solver_parameters_var_form blk args kwargs =
     res_bind (init_solver_parameters_generic blk args kwargs) (\<lambda>(b0, kw).
     res_bind (py_len (forward_args b0)) (\<lambda>n1.
       let b1 = (if n1 \<le> 0 then b0\<lparr>forward_args := PySeq args\<rparr> else b0) in
     res_bind (py_len (forward_kwargs b1)) (\<lambda>n2.
       let b2 = (if n2 \<le> 0 then b1\<lparr>forward_kwargs := PyDict kw\<rparr> else b1) in
     res_bind (var_form_mat_type b2) (\<lambda>b3.
     res_bind (var_form_adj_parameters b3 kw) (\<lambda>b4. Inr (b4, kw))))))"

definition init_solver_parameters ::
  "'v solve_block \<Rightarrow> 'v pyval list \<Rightarrow> 'v kwargs \<Rightarrow> py_error + ('v solve_block \<times> 'v kwargs)" where
  "init_solver_parameters blk args kwargs =
     (case block_class blk of
        GenericSolveBlock \<Rightarrow> init_solver_parameters_generic blk args kwargs
      | SolveLinearSystemBlock \<Rightarrow> init_solver_parameters_linear_system blk args kwargs
      | SolveVarFormBlock \<Rightarrow> init_solver_parameters_var_form blk args kwargs)"

text \<open>
  The binding of the arguments of a call \<open>f(*args, **kwargs)\<close> to the named parameters of
  \<open>f\<close> (each with its default, if it has one): positional arguments fill the names in
  order, a keyword that names a parameter filled already is a type error, a parameter
  left without value and without default is a type error. The result is the values of
  the named parameters, the surplus positional arguments and the surplus keywords.
\<close>

fun bind_params ::
  "(string \<times> 'v pyval option) list \<Rightarrow> 'v pyval list \<Rightarrow> 'v kwargs \<Rightarrow>
   py_error + ('v pyval list \<times> 'v pyval list \<times> 'v kwargs)" where
  "bind_params [] ps kw = Inr ([], ps, kw)"
| "bind_params ((n, d) # ns) (p # ps) kw =
     (if map_of kw n \<noteq> None then Inl TypeError
      else res_bind (bind_params ns ps kw) (\<lambda>(vs, extra, kw'). Inr (p # vs, extra, kw')))"
| "bind_params ((n, d) # ns) [] kw =
     (case map_of kw n of
        Some v \<Rightarrow> res_bind (bind_params ns [] (AList.delete n kw))
                   (\<lambda>(vs, extra, kw'). Inr (v # vs, extra, kw'))
      | None \<Rightarrow>
          (case d of
             None \<Rightarrow> Inl TypeError
           | Some dv \<Rightarrow> res_bind (bind_params ns [] kw)
                          (\<lambda>(vs, extra, kw'). Inr (dv # vs, extra, kw'))))"

text \<open>
  The attributes as \<open>GenericSolveBlock.__init__\<close> sets them before it looks at the
  forms. The attributes \<open>ident_zeros_tol\<close> and \<open>assemble_system\<close> exist on a
  \<open>SolveLinearSystemBlock\<close> only and are set by its constructor; here they get the values
  that constructor uses when the matrix does not carry them.
\<close>

definition fresh_block ::
  "'v backend \<Rightarrow> block_class \<Rightarrow> 'v pyval \<Rightarrow> 'v pyval \<Rightarrow> 'v pyval \<Rightarrow> 'v pyval \<Rightarrow>
   'v \<Rightarrow> 'v pyval \<Rightarrow> 'v \<Rightarrow> 'v list \<Rightarrow> 'v solve_block" where
  "fresh_block B klass cb1 cb2 cb3 cb4 lhs_o rhs_v func_o bcs_l =
     \<lparr>block_class = klass,
      adj_cb = cb1, adj_bdy_cb = cb2, adj2_cb = cb3, adj2_bdy_cb = cb4,
      adj_sol = None,
      forward_args = PySeq [], forward_kwargs = PyDict [], adj_args = PySeq [],
      adj_kwargs = PyDict [],
      assemble_kwargs = [],
      lhs = lhs_o, rhs = rhs_v, func = func_o,
      blk_function_space = function_space B func_o,
      bcs = bcs_l,
      linear = False,
      dependencies = [], outputs = [],
      ident_zeros_tol = PyNone, blk_assemble_system = False,
      cb_calls = []\<rparr>"

text \<open>\<open>x.coefficients()\<close> for a value that passed the test for a form.\<close>

definition py_coefficients :: "'v backend \<Rightarrow> 'v pyval \<Rightarrow> 'v list" where
  "py_coefficients B x = (case x of PyObj r \<Rightarrow> coefficients B r | _ \<Rightarrow> [])"

text \<open>
  The second half of the constructor: the flag \<open>linear\<close> and the dependencies on the
  coefficients of the right-hand side (linear case only) and of the left-hand side, on
  the boundary conditions and on the mesh.
\<close>

definition register_dependencies :: "'v backend \<Rightarrow> 'v solve_block \<Rightarrow> 'v solve_block" where
  "register_dependencies B blk0 =
     (let blk1 = (if isinstance B (PyObj (lhs blk0)) ClsForm \<and> isinstance B (rhs blk0) ClsForm
                  then add_dependencies B (py_coefficients B (rhs blk0)) (blk0\<lparr>linear := True\<rparr>)
                  else blk0\<lparr>linear := False\<rparr>);
          blk2 = add_dependencies B (coefficients B (lhs blk1)) blk1;
          blk3 = add_dependencies B (bcs blk2) blk2;
          mesh = (if backend_name B \<noteq> ''firedrake'' then ufl_cargo B (ufl_domain B (lhs blk3))
                  else ufl_domain B (lhs blk3))
      in add_dependency B mesh False blk3)"

text \<open>
  \<open>GenericSolveBlock.__init__(self, lhs, rhs, func, bcs, *args, **kwargs)\<close>, called with
  the positional arguments \<open>ps\<close> and the keywords \<open>kwargs\<close>; \<open>klass\<close> is the class being
  constructed.
\<close>

definition GenericSolveBlock_init ::
  "'v backend \<Rightarrow> 'v enlisting \<Rightarrow> block_class \<Rightarrow> 'v pyval list \<Rightarrow> 'v kwargs \<Rightarrow>
   py_error + 'v solve_block" where
  "GenericSolveBlock_init B L klass ps kwargs =
     res_bind (bind_params [(''lhs'', None), (''rhs'', None), (''func'', None), (''bcs'', None)]
                 ps kwargs) (\<lambda>(vs, args, kw0).
     case vs of
       [lhs_v, rhs_v, func_v, bcs_v] \<Rightarrow>
         (case dict_pop ''adj_cb'' PyNone kw0 of (cb1, kw1) \<Rightarrow>
          case dict_pop ''adj_bdy_cb'' PyNone kw1 of (cb2, kw2) \<Rightarrow>
          case dict_pop ''adj2_cb'' PyNone kw2 of (cb3, kw3) \<Rightarrow>
          case dict_pop ''adj2_bdy_cb'' PyNone kw3 of (cb4, kw4) \<Rightarrow>
          res_bind (as_obj func_v) (\<lambda>func_o.
          res_bind (enlist_bcs L bcs_v) (\<lambda>bcs_l.
          res_bind (as_obj lhs_v) (\<lambda>lhs_o.
          res_bind (init_solver_parameters
                      (register_dependencies B
                         (fresh_block B klass cb1 cb2 cb3 cb4 lhs_o rhs_v func_o bcs_l))
                      args kw4) (\<lambda>(blk5, kw5). Inr blk5)))))
     | _ \<Rightarrow> Inl TypeError)"

text \<open>
  \<open>SolveLinearSystemBlock.__init__(self, A, u, b, *args, **kwargs)\<close>: the forms, the
  function and the boundary conditions are attributes of the assembled objects.
\<close>

definition SolveLinearSystemBlock_init ::
  "'v backend \<Rightarrow> 'v enlisting \<Rightarrow> 'v pyval list \<Rightarrow> 'v kwargs \<Rightarrow> py_error + 'v solve_block" where
  "SolveLinearSystemBlock_init B L ps kwargs =
     res_bind (bind_params [(''A'', None), (''u'', None), (''b'', None)] ps kwargs)
       (\<lambda>(vs, args, kw).
     case vs of
       [A, u, b] \<Rightarrow>
         res_bind (py_getattr B A ''form'') (\<lambda>lhs_v.
         res_bind (py_getattr B u ''function'') (\<lambda>func_v.
         res_bind (py_getattr B b ''form'') (\<lambda>rhs_v.
         res_bind (if py_hasattr B A ''bcs'' then py_getattr B A ''bcs'' else Inr (PySeq []))
           (\<lambda>bcs_v.
         res_bind (GenericSolveBlock_init B L SolveLinearSystemBlock
                     ([lhs_v, rhs_v, func_v, bcs_v] @ args) kw) (\<lambda>blk.
         res_bind (if py_hasattr B A ''ident_zeros_tol'' then py_getattr B A ''ident_zeros_tol''
                   else Inr PyNone) (\<lambda>tol.
         res_bind (if py_hasattr B A ''assemble_system'' then py_getattr B A ''assemble_system''
                   else Inr (PyBool False)) (\<lambda>asys.
           Inr (blk\<lparr>ident_zeros_tol := tol, blk_assemble_system := py_truthy asys\<rparr>))))))))
     | _ \<Rightarrow> Inl TypeError)"

text \<open>\<open>SolveVarFormBlock.__init__(self, equation, func, bcs=[], *args, **kwargs)\<close>\<close>

definition SolveVarFormBlock_init ::
  "'v backend \<Rightarrow> 'v enlisting \<Rightarrow> 'v pyval list \<Rightarrow> 'v kwargs \<Rightarrow> py_error + 'v solve_block" where
  "SolveVarFormBlock_init B L ps kwargs =
     res_bind (bind_params [(''equation'', None), (''func'', None), (''bcs'', Some (PySeq []))]
                 ps kwargs) (\<lambda>(vs, args, kw).
     case vs of
       [equation, func_v, bcs_v] \<Rightarrow>
         res_bind (py_getattr B equation ''lhs'') (\<lambda>lhs_v.
         res_bind (py_getattr B equation ''rhs'') (\<lambda>rhs_v.
           GenericSolveBlock_init B L SolveVarFormBlock ([lhs_v, rhs_v, func_v, bcs_v] @ args) kw))
     | _ \<Rightarrow> Inl TypeError)"

subsection \<open>The residual form and the boundary conditions\<close>

text \<open>
  \<open>_replace_map(form)\<close>: the dictionary from the dependencies that are coefficients of
  the form to their saved values, a later dependency overwriting an equal earlier key.
\<close>

definition replace_map :: "'v backend \<Rightarrow> 'v solve_block \<Rightarrow> 'v \<Rightarrow> ('v \<times> 'v) list" where
  "replace_map B blk form =
     foldl (\<lambda>replace_coeffs bv.
              if bv_output bv \<in> set (coefficients B form)
              then AList.update (bv_output bv) (saved_output bv) replace_coeffs
              else replace_coeffs)
       [] (dependencies blk)"

text \<open>
  \<open>_create_F_form()\<close>. In the linear case the right-hand side is subtracted as a form;
  the flag \<open>linear\<close> is set by the constructor only when the right-hand side is an
  object, and for a block put together otherwise the subtraction is a type error.
\<close>

definition create_F_form :: "'v backend \<Rightarrow> 'v solve_block \<Rightarrow> py_error + 'v" where
  "create_F_form B blk =
     res_bind (if linear blk
               then (let tmp_u = create_function B (blk_function_space blk) in
                     case rhs blk of
                       PyObj r \<Rightarrow> Inr (tmp_u, op_sub B (action B (lhs blk) tmp_u) r)
                     | _ \<Rightarrow> Inl TypeError)
               else Inr (func blk, lhs blk)) (\<lambda>(tmp_u, F_form).
     let m = replace_map B blk F_form in
     res_bind (py_index (outputs blk) 0) (\<lambda>out.
       Inr (replace B F_form (AList.update tmp_u (saved_output out) m))))"

text \<open>\<open>_homogenize_bcs()\<close>\<close>

definition homogenize_bcs :: "'v backend \<Rightarrow> 'v solve_block \<Rightarrow> 'v list" where
  "homogenize_bcs B blk =
     map (\<lambda>bc. if cls B bc = ClsDirichletBC then create_bc_homogenize B bc else bc) (bcs blk)"

text \<open>
  \<open>_should_compute_boundary_adjoint(relevant_dependencies)\<close>: the loop over the pairs of
  index and dependency, left at the first \<open>DirichletBC\<close>.
\<close>

fun should_compute_boundary_adjoint :: "'v backend \<Rightarrow> (nat \<times> 'v block_variable) list \<Rightarrow> bool" where
  "should_compute_boundary_adjoint B [] = False"
| "should_compute_boundary_adjoint B ((i, dep) # rest) =
     (if cls B (bv_output dep) = ClsDirichletBC then True
      else should_compute_boundary_adjoint B rest)"

subsection \<open>The adjoint equation\<close>

text \<open>
  \<open>x.copy()\<close> of a vector: in-place changes are modelled by new values, so the copy taken
  before a change is the value before the change.
\<close>

definition vec_copy :: "'v \<Rightarrow> 'v" where
  "vec_copy x = x"

text \<open>
  The boundary part of an adjoint solution, the same expression in the three versions of
  \<open>_assemble_and_solve_adj_eq\<close>:
  \<^verbatim>\<open>compat.function_from_vector(self.function_space, dJdu_copy - compat.assemble_adjoint_value(
      backend.action(dFdu_adj_form, adj_sol)))\<close>
\<close>

definition boundary_adjoint :: "'v backend \<Rightarrow> 'v solve_block \<Rightarrow> 'v \<Rightarrow> 'v \<Rightarrow> 'v \<Rightarrow> 'v" where
  "boundary_adjoint B blk dFdu_adj_form dJdu_copy adj_sol' =
     function_from_vector B (blk_function_space blk)
       (op_sub B dJdu_copy (assemble_adjoint_value B (action B dFdu_adj_form adj_sol') [] None))"

text \<open>\<open>GenericSolveBlock._assemble_and_solve_adj_eq(dFdu_adj_form, dJdu, compute_bdy)\<close>\<close>

definition assemble_and_solve_adj_eq_generic ::
  "'v backend \<Rightarrow> 'v solve_block \<Rightarrow> 'v \<Rightarrow> 'v \<Rightarrow> bool \<Rightarrow> py_error + ('v \<times> 'v option)" where
  "assemble_and_solve_adj_eq_generic B blk dFdu_adj_form dJdu compute_bdy =
     (let dJdu_copy = vec_copy dJdu;
          bcs' = homogenize_bcs B blk;
          dFdu = assemble_adjoint_value B dFdu_adj_form (assemble_kwargs blk) (Some bcs');
          dJdu' = foldl (\<lambda>x bc. bc_apply B bc x) dJdu bcs';
          adj_sol0 = create_function B (blk_function_space blk)
      in res_bind (py_star (adj_args blk)) (\<lambda>aa.
         res_bind (py_starstar (adj_kwargs blk)) (\<lambda>ak.
           let adj_sol' = linalg_solve B dFdu adj_sol0 dJdu' aa ak;
               adj_sol_bdy = (if compute_bdy
                              then Some (boundary_adjoint B blk dFdu_adj_form dJdu_copy adj_sol')
                              else None)
           in Inr (adj_sol', adj_sol_bdy))))"

text \<open>\<open>SolveLinearSystemBlock._assemble_and_solve_adj_eq\<close>\<close>

definition assemble_and_solve_adj_eq_linear_system ::
  "'v backend \<Rightarrow> 'v solve_block \<Rightarrow> 'v \<Rightarrow> 'v \<Rightarrow> bool \<Rightarrow> py_error + ('v \<times> 'v option)" where
  "assemble_and_solve_adj_eq_linear_system B blk dFdu_adj_form dJdu compute_bdy =
     (let dJdu_copy = vec_copy dJdu;
          bcs' = homogenize_bcs B blk in
      res_bind (if blk_assemble_system blk
                then res_bind (py_index (arguments B dFdu_adj_form) 0) (\<lambda>v.
                       let rhs_bcs_form = op_mul B (inner B (Function B (blk_function_space blk)) v)
                                            (dx B)
                       in Inr (fst (assemble_system B dFdu_adj_form rhs_bcs_form bcs')))
                else Inr (foldl (\<lambda>A bc. bc_apply B bc A) (assemble B dFdu_adj_form) bcs'))
        (\<lambda>A.
      let dJdu' = foldl (\<lambda>x bc. bc_apply B bc x) dJdu bcs';
          adj_sol0 = create_function B (blk_function_space blk)
      in res_bind (py_star (adj_args blk)) (\<lambda>aa.
         res_bind (py_starstar (adj_kwargs blk)) (\<lambda>ak.
           let adj_sol' = linalg_solve B A adj_sol0 dJdu' aa ak;
               adj_sol_bdy = (if compute_bdy
                              then Some (boundary_adjoint B blk dFdu_adj_form dJdu_copy adj_sol')
                              else None)
           in Inr (adj_sol', adj_sol_bdy)))))"

text \<open>
  \<open>SolveVarFormBlock._assemble_and_solve_adj_eq\<close>: the boundary conditions are applied
  to the matrix and the right-hand side together, and the solver is chosen from the first
  of the adjoint arguments.
\<close>

definition assemble_and_solve_adj_eq_var_form ::
  "'v backend \<Rightarrow> 'v solve_block \<Rightarrow> 'v \<Rightarrow> 'v \<Rightarrow> bool \<Rightarrow> py_error + ('v \<times> 'v option)" where
  "assemble_and_solve_adj_eq_var_form B blk dFdu_adj_form dJdu compute_bdy =
     (let dJdu_copy = vec_copy dJdu;
          dFdu0 = assemble_adjoint_value B dFdu_adj_form (assemble_kwargs blk) None;
          bcs' = homogenize_bcs B blk in
      case foldl (\<lambda>(A, b) bc. bc_apply2 B bc A b) (dFdu0, dJdu) bcs' of (dFdu, dJdu') \<Rightarrow>
      let adj_sol0 = create_function B (blk_function_space blk) in
      res_bind (py_len (adj_args blk)) (\<lambda>n.
      res_bind (if n \<ge> 1 then py_first (adj_args blk) else Inr (PyStr ''default''))
        (\<lambda>solver_method0.
      let solver_method = (if solver_method0 = PyStr ''lu'' then PyStr ''default''
                           else solver_method0) in
      res_bind (if solver_method \<in> set (lu_solver_methods B)
                then res_bind (py_get (adj_kwargs blk) ''lu_solver'' (PyDict []))
                       (\<lambda>solver_parameters.
                          Inr (LUSolver_solve B solver_method solver_parameters
                                 dFdu adj_sol0 dJdu'))
                else res_bind (py_star (adj_args blk)) (\<lambda>aa.
                     res_bind (py_get (adj_kwargs blk) ''krylov_solver'' (PyDict []))
                       (\<lambda>solver_parameters.
                          Inr (KrylovSolver_solve B aa solver_parameters
                                 dFdu adj_sol0 dJdu'))))
        (\<lambda>adj_sol'.
      let adj_sol_bdy = (if compute_bdy
                         then Some (boundary_adjoint B blk dFdu_adj_form dJdu_copy adj_sol')
                         else None)
      in Inr (adj_sol', adj_sol_bdy)))))"

definition assemble_and_solve_adj_eq ::
  "'v backend \<Rightarrow> 'v solve_block \<Rightarrow> 'v \<Rightarrow> 'v \<Rightarrow> bool \<Rightarrow> py_error + ('v \<times> 'v option)" where
  "assemble_and_solve_adj_eq B blk dFdu_adj_form dJdu compute_bdy =
     (case block_class blk of
        GenericSolveBlock \<Rightarrow> assemble_and_solve_adj_eq_generic B blk dFdu_adj_form dJdu compute_bdy
      | SolveLinearSystemBlock \<Rightarrow>
          assemble_and_solve_adj_eq_linear_system B blk dFdu_adj_form dJdu compute_bdy
      | SolveVarFormBlock \<Rightarrow>
          assemble_and_solve_adj_eq_var_form B blk dFdu_adj_form dJdu compute_bdy)"

text \<open>
  A callback that is not \<open>None\<close> is called with one argument; the call is recorded.
\<close>

definition call_cb :: "'v pyval \<Rightarrow> 'v \<Rightarrow> 'v solve_block \<Rightarrow> 'v solve_block" where
  "call_cb cb x blk = (if cb \<noteq> PyNone then blk\<lparr>cb_calls := cb_calls blk @ [(cb, x)]\<rparr> else blk)"

subsection \<open>The adjoint pass\<close>

text \<open>The dictionary returned by \<open>prepare_evaluate_adj\<close>, with its three keys.\<close>

record 'v adj_prepared =
  p_form :: 'v
  p_adj_sol :: 'v
  p_adj_sol_bdy :: "'v option"

text \<open>
  \<open>prepare_evaluate_adj(inputs, adj_inputs, relevant_dependencies)\<close>: the result and the
  block with the cached adjoint solution.
\<close>

definition prepare_evaluate_adj ::
  "'v backend \<Rightarrow> 'v solve_block \<Rightarrow> 'v list \<Rightarrow> 'v list \<Rightarrow> (nat \<times> 'v block_variable) list \<Rightarrow>
   py_error + ('v adj_prepared \<times> 'v solve_block)" where
  "prepare_evaluate_adj B blk inputs adj_inputs relevant_dependencies =
     res_bind (py_index (outputs blk) 0) (\<lambda>fwd_block_variable.
     let u = bv_output fwd_block_variable in
     res_bind (py_index adj_inputs 0) (\<lambda>dJdu0.
     res_bind (create_F_form B blk) (\<lambda>F_form.
     let dFdu = backend_derivative B F_form (saved_output fwd_block_variable)
                  (Some (TrialFunction B (function_space B u)));
         dFdu_form = adjoint B dFdu;
         dJdu = vec_copy dJdu0;
         compute_bdy = should_compute_boundary_adjoint B relevant_dependencies
     in
     res_bind (assemble_and_solve_adj_eq B blk dFdu_form dJdu compute_bdy)
       (\<lambda>(adj_sol', adj_sol_bdy).
     let blk1 = blk\<lparr>adj_sol := Some adj_sol'\<rparr>;
         blk2 = call_cb (adj_cb blk1) adj_sol' blk1;
         blk3 = (if compute_bdy
                 then (case adj_sol_bdy of
                         Some bdy \<Rightarrow> call_cb (adj_bdy_cb blk2) bdy blk2
                       | None \<Rightarrow> blk2)
                 else blk2)
     in Inr (\<lparr>p_form = F_form, p_adj_sol = adj_sol', p_adj_sol_bdy = adj_sol_bdy\<rparr>, blk3)))))"

text \<open>
  What a component evaluation returns: \<open>None\<close>, a list of boundary conditions, one value,
  or a list of pairs of a value and a function space.
\<close>

datatype 'v component = RNone | RList "'v list" | RValue "'v pyval" | RPairs "('v pyval \<times> 'v) list"

text \<open>
  \<open>evaluate_adj_component(inputs, adj_inputs, block_variable, idx, prepared=None)\<close>. The
  chain of \<open>isinstance\<close> tests binds \<open>trial_function\<close> in its first three branches only;
  for an object of no tested class the use of the unbound name raises.
\<close>

definition evaluate_adj_component ::
  "'v backend \<Rightarrow> 'v solve_block \<Rightarrow> 'v list \<Rightarrow> 'v list \<Rightarrow> 'v block_variable \<Rightarrow> nat \<Rightarrow>
   'v adj_prepared option \<Rightarrow> py_error + 'v component" where
  "evaluate_adj_component B blk inputs adj_inputs block_var idx prepared =
     (if \<not> linear blk \<and> func blk = bv_output block_var then Inr RNone
      else
        case prepared of
          None \<Rightarrow> Inl TypeError
        | Some prep \<Rightarrow>
            let F_form = p_form prep;
                adj_sol' = p_adj_sol prep;
                adj_sol_bdy = p_adj_sol_bdy prep;
                c = bv_output block_var;
                c_rep = saved_output block_var;
                tail = (\<lambda>trial_function c_fs.
                  let dFdm1 = op_neg B (backend_derivative B F_form c_rep (Some trial_function));
                      dFdm2 = adjoint B dFdm1;
                      dFdm3 = op_mul B dFdm2 adj_sol';
                      dFdm4 = assemble_adjoint_value B dFdm3 (assemble_kwargs blk) None
                  in (case c_fs of
                        Some fs \<Rightarrow> RPairs [(PyObj dFdm4, fs)]
                      | None \<Rightarrow> RValue (PyObj dFdm4)))
            in
            if cls B c = ClsFunction then
              Inr (tail (TrialFunction B (function_space B c)) None)
            else if cls B c = ClsConstant then
              (let mesh = extract_mesh_from_form B F_form in
               Inr (tail (TrialFunction B (ad_function_space B c (Some mesh))) None))
            else if cls B c = ClsExpression then
              (let mesh = ufl_cargo B (ufl_domain B F_form);
                   c_fs = ad_function_space B c (Some mesh)
               in Inr (tail (TrialFunction B c_fs) (Some c_fs)))
            else if cls B c = ClsDirichletBC then
              (let tmp_bc = create_bc_value B c
                              (extract_subfunction B adj_sol_bdy (function_space B c))
               in Inr (RList [tmp_bc]))
            else if cls B c = ClsMesh then
              (let F_form_tmp = action B F_form adj_sol';
                   X = SpatialCoordinate B c_rep;
                   dFdm = backend_derivative B (op_neg B F_form_tmp) X
                            (Some (TestFunction B (ad_function_space B c None)))
               in Inr (RValue (PyObj (assemble_adjoint_value B dFdm (assemble_kwargs blk) None))))
            else Inl UnboundLocalError)"

subsection \<open>The tangent linear pass\<close>

record 'v tlm_prepared =
  t_form :: 'v
  t_dFdu :: 'v

text \<open>\<open>prepare_evaluate_tlm(inputs, tlm_inputs, relevant_outputs)\<close>\<close>

definition prepare_evaluate_tlm ::
  "'v backend \<Rightarrow> 'v solve_block \<Rightarrow> py_error + 'v tlm_prepared" where
  "prepare_evaluate_tlm B blk =
     res_bind (py_index (outputs blk) 0) (\<lambda>fwd_block_variable.
     let u = bv_output fwd_block_variable in
     res_bind (create_F_form B blk) (\<lambda>F_form.
       Inr \<lparr>t_form = F_form,
            t_dFdu = backend_derivative B F_form (saved_output fwd_block_variable)
                       (Some (TrialFunction B (function_space B u)))\<rparr>))"

text \<open>
  One round of the loop of \<open>evaluate_tlm_component\<close> over the dependencies. The state of
  the loop is the list \<open>bcs\<close> and the sum \<open>dFdm\<close>, which starts as the float \<open>0.\<close> and
  becomes a form with the first term added (\<open>0. + form\<close> is the form).
\<close>

definition tlm_step ::
  "'v backend \<Rightarrow> 'v solve_block \<Rightarrow> 'v \<Rightarrow> 'v list \<times> 'v pyval \<Rightarrow> 'v block_variable \<Rightarrow>
   'v list \<times> 'v pyval" where
  "tlm_step B blk F_form st block_var =
     (case st of (bcs', dFdm) \<Rightarrow>
      let tlm_val = tlm_value block_var;
          c = bv_output block_var;
          c_rep = saved_output block_var
      in
      if cls B c = ClsDirichletBC then
        (case tlm_val of
           None \<Rightarrow> (bcs' @ [create_bc_homogenize B c], dFdm)
         | Some t \<Rightarrow> (bcs' @ [t], dFdm))
      else
        let c_rep' = (if cls B c = ClsMesh then SpatialCoordinate B c else c_rep) in
        case tlm_val of
          None \<Rightarrow> (bcs', dFdm)
        | Some t \<Rightarrow>
            if c = func blk \<and> \<not> linear blk then (bcs', dFdm)
            else
              let term = backend_derivative B (op_neg B F_form) c_rep' (Some t) in
              (bcs', (case dFdm of PyObj d \<Rightarrow> PyObj (op_add B d term) | _ \<Rightarrow> PyObj term)))"

text \<open>
  \<open>_assembled_solve(lhs, rhs, func, bcs)\<close>, to which \<open>_assemble_and_solve_tlm_eq\<close> hands
  its arguments.
\<close>

definition assembled_solve :: "'v backend \<Rightarrow> 'v \<Rightarrow> 'v \<Rightarrow> 'v \<Rightarrow> 'v list \<Rightarrow> 'v" where
  "assembled_solve B lhs' rhs' func' bcs' =
     solve_assembled B lhs' func' (foldl (\<lambda>x bc. bc_apply B bc x) rhs' bcs')"

definition assemble_and_solve_tlm_eq :: "'v backend \<Rightarrow> 'v \<Rightarrow> 'v \<Rightarrow> 'v \<Rightarrow> 'v list \<Rightarrow> 'v" where
  "assemble_and_solve_tlm_eq B dFdu dFdm dudm bcs' = assembled_solve B dFdu dFdm dudm bcs'"

text \<open>
  The right-hand side built when the sum is still the float:
  \<^verbatim>\<open>backend.inner(backend.Constant(numpy.zeros(v.ufl_shape)), v) * backend.dx\<close>
\<close>

definition zero_rhs_form :: "'v backend \<Rightarrow> 'v \<Rightarrow> 'v" where
  "zero_rhs_form B v = op_mul B (inner B (zero_Constant B v) v) (dx B)"

text \<open>\<open>evaluate_tlm_component(inputs, tlm_inputs, block_variable, idx, prepared=None)\<close>\<close>

definition evaluate_tlm_component ::
  "'v backend \<Rightarrow> 'v solve_block \<Rightarrow> 'v list \<Rightarrow> 'v list \<Rightarrow> 'v block_variable \<Rightarrow> nat \<Rightarrow>
   'v tlm_prepared option \<Rightarrow> py_error + 'v" where
  "evaluate_tlm_component B blk inputs tlm_inputs block_var idx prepared =
     (case prepared of
        None \<Rightarrow> Inl TypeError
      | Some prep \<Rightarrow>
          let F_form = t_form prep;
              dFdu = t_dFdu prep
          in
          res_bind (py_index (outputs blk) idx) (\<lambda>out.
          let V = function_space B (bv_output out) in
          case foldl (tlm_step B blk F_form) ([], PyFloat 0) (dependencies blk) of
            (bcs', dFdm) \<Rightarrow>
          res_bind (case dFdm of
                      PyObj d \<Rightarrow> Inr d
                    | _ \<Rightarrow> res_bind (py_index (arguments B dFdu) 0) (\<lambda>v.
                             Inr (zero_rhs_form B v))) (\<lambda>dFdm1.
          let dFdm2 = expand_derivatives B dFdm1;
              dFdm3 = assemble_adjoint_value B dFdm2 [] None;
              dudm = Function B V
          in Inr (assemble_and_solve_tlm_eq B
                    (assemble_adjoint_value B dFdu [] (Some bcs')) dFdm3 dudm bcs'))))"

subsection \<open>The second-order adjoint pass\<close>

text \<open>One round of the loop of \<open>_assemble_soa_eq_rhs\<close> over the dependencies.\<close>

definition soa_step ::
  "'v backend \<Rightarrow> 'v solve_block \<Rightarrow> 'v \<Rightarrow> 'v \<Rightarrow> 'v \<Rightarrow> 'v block_variable \<Rightarrow> 'v" where
  "soa_step B blk dFdu_form adj_sol' b_form bo =
     (let c = bv_output bo;
          c_rep = saved_output bo
      in
      case tlm_value bo of
        None \<Rightarrow> b_form
      | Some tlm_input \<Rightarrow>
          if c = func blk \<and> \<not> linear blk then b_form
          else if cls B c = ClsMesh then
            (let X = SpatialCoordinate B c;
                 dFdu_adj = action B (adjoint B dFdu_form) adj_sol';
                 d2Fdudm = expand_derivatives B (backend_derivative B dFdu_adj X (Some tlm_input))
             in if has_integrals B d2Fdudm then op_add B b_form d2Fdudm else b_form)
          else if cls B c \<noteq> ClsDirichletBC then
            (let dFdu_adj = action B (adjoint B dFdu_form) adj_sol'
             in op_add B b_form (backend_derivative B dFdu_adj c_rep (Some tlm_input)))
          else b_form)"

text \<open>\<open>_assemble_soa_eq_rhs(dFdu_form, adj_sol, hessian_input, d2Fdu2)\<close>\<close>

definition assemble_soa_eq_rhs ::
  "'v backend \<Rightarrow> 'v solve_block \<Rightarrow> 'v \<Rightarrow> 'v \<Rightarrow> 'v \<Rightarrow> 'v \<Rightarrow> 'v" where
  "assemble_soa_eq_rhs B blk dFdu_form adj_sol' hessian_input d2Fdu2 =
     (let b = vec_copy hessian_input;
          b_form0 = (if has_integrals B d2Fdu2 then action B (adjoint B d2Fdu2) adj_sol'
                     else d2Fdu2);
          b_form1 = foldl (soa_step B blk dFdu_form adj_sol') b_form0 (dependencies blk);
          b_form2 = expand_derivatives B b_form1
      in if has_integrals B b_form2
         then op_sub B b (assemble_adjoint_value B b_form2 [] None)
         else b)"

text \<open>
  \<open>_assemble_and_solve_soa_eq(dFdu_form, adj_sol, hessian_input, d2Fdu2, compute_bdy)\<close>:
  the two second-order solutions and the block with the calls of its callbacks recorded.
\<close>

definition assemble_and_solve_soa_eq ::
  "'v backend \<Rightarrow> 'v solve_block \<Rightarrow> 'v \<Rightarrow> 'v \<Rightarrow> 'v \<Rightarrow> 'v \<Rightarrow> bool \<Rightarrow>
   py_error + (('v \<times> 'v option) \<times> 'v solve_block)" where
  "assemble_and_solve_soa_eq B blk dFdu_form adj_sol' hessian_input d2Fdu2 compute_bdy =
     (let b = assemble_soa_eq_rhs B blk dFdu_form adj_sol' hessian_input d2Fdu2;
          dFdu_form' = adjoint B dFdu_form
      in
      res_bind (assemble_and_solve_adj_eq B blk dFdu_form' b compute_bdy)
        (\<lambda>(adj_sol2, adj_sol2_bdy).
      let blk1 = call_cb (adj2_cb blk) adj_sol2 blk;
          blk2 = (if compute_bdy
                  then (case adj_sol2_bdy of
                          Some bdy \<Rightarrow> call_cb (adj2_bdy_cb blk1) bdy blk1
                        | None \<Rightarrow> blk1)
                  else blk1)
      in Inr ((adj_sol2, adj_sol2_bdy), blk2)))"

text \<open>The dictionary returned by \<open>prepare_evaluate_hessian\<close>, with its four keys.\<close>

record 'v hessian_prepared =
  h_adj_sol2 :: 'v
  h_adj_sol2_bdy :: "'v option"
  h_form :: 'v
  h_adj_sol :: 'v

text \<open>
  \<open>prepare_evaluate_hessian(inputs, hessian_inputs, adj_inputs, relevant_dependencies)\<close>.
  The result is \<open>None\<close> for the two plain \<open>return\<close> statements, otherwise the dictionary.
\<close>

definition prepare_evaluate_hessian ::
  "'v backend \<Rightarrow> 'v solve_block \<Rightarrow> 'v list \<Rightarrow> 'v option list \<Rightarrow> 'v list \<Rightarrow>
   (nat \<times> 'v block_variable) list \<Rightarrow> py_error + ('v hessian_prepared option \<times> 'v solve_block)" where
  "prepare_evaluate_hessian B blk inputs hessian_inputs adj_inputs relevant_dependencies =
     res_bind (py_index (outputs blk) 0) (\<lambda>fwd_block_variable.
     res_bind (py_index hessian_inputs 0) (\<lambda>hessian_input_opt.
     let tlm_output_opt = tlm_value fwd_block_variable in
     case hessian_input_opt of
       None \<Rightarrow> Inr (None, blk)
     | Some hessian_input \<Rightarrow>
     case tlm_output_opt of
       None \<Rightarrow> Inr (None, blk)
     | Some tlm_output \<Rightarrow>
     res_bind (create_F_form B blk) (\<lambda>F_form.
     let dFdu_form = backend_derivative B F_form (saved_output fwd_block_variable) None;
         d2Fdu2 = expand_derivatives B
                    (backend_derivative B dFdu_form (saved_output fwd_block_variable)
                       (Some tlm_output))
     in
     case adj_sol blk of
       None \<Rightarrow> Inl RuntimeError
     | Some adj_sol' \<Rightarrow>
     let bdy = should_compute_boundary_adjoint B relevant_dependencies in
     res_bind (assemble_and_solve_soa_eq B blk dFdu_form adj_sol' hessian_input d2Fdu2 bdy)
       (\<lambda>((adj_sol2, adj_sol2_bdy), blk').
       Inr (Some \<lparr>h_adj_sol2 = adj_sol2, h_adj_sol2_bdy = adj_sol2_bdy, h_form = F_form,
                  h_adj_sol = adj_sol'\<rparr>, blk')))))"

text \<open>
  One round of the loop of \<open>evaluate_hessian_component\<close> over the relevant dependencies.
  The sum \<open>d2Fdm2\<close> starts as the integer \<open>0\<close> (here \<open>None\<close>) and becomes a form with the
  first term added.
\<close>

definition hessian_step ::
  "'v backend \<Rightarrow> 'v solve_block \<Rightarrow> 'v \<Rightarrow> 'v option \<Rightarrow> nat \<times> 'v block_variable \<Rightarrow> 'v option" where
  "hessian_step B blk dFdm_adj d2Fdm2 dep =
     (let bv = snd dep;
          c2 = bv_output bv;
          c2_rep = saved_output bv
      in
      if cls B c2 = ClsDirichletBC then d2Fdm2
      else
        case tlm_value bv of
          None \<Rightarrow> d2Fdm2
        | Some tlm_input \<Rightarrow>
            if c2 = func blk \<and> \<not> linear blk then d2Fdm2
            else
              let wrt = (if cls B c2_rep = ClsMesh then SpatialCoordinate B c2_rep else c2_rep);
                  term = expand_derivatives B (backend_derivative B dFdm_adj wrt (Some tlm_input))
              in (case d2Fdm2 of None \<Rightarrow> Some term | Some d \<Rightarrow> Some (op_add B d term)))"

text \<open>
  \<open>evaluate_hessian_component(inputs, hessian_inputs, adj_inputs, block_variable, idx,
  relevant_dependencies, prepared=None)\<close>. The coordinate \<open>X\<close> is bound only in the mesh
  branch of the first chain of tests.
\<close>

definition evaluate_hessian_component ::
  "'v backend \<Rightarrow> 'v solve_block \<Rightarrow> 'v list \<Rightarrow> 'v option list \<Rightarrow> 'v list \<Rightarrow> 'v block_variable \<Rightarrow>
   nat \<Rightarrow> (nat \<times> 'v block_variable) list \<Rightarrow> 'v hessian_prepared option \<Rightarrow>
   py_error + 'v component" where
  "evaluate_hessian_component B blk inputs hessian_inputs adj_inputs block_var idx
     relevant_dependencies prepared =
     (let c = bv_output block_var in
      if c = func blk \<and> \<not> linear blk then Inr RNone
      else
        case prepared of
          None \<Rightarrow> Inl TypeError
        | Some prep \<Rightarrow>
            let adj_sol2 = h_adj_sol2 prep;
                adj_sol2_bdy = h_adj_sol2_bdy prep;
                F_form = h_form prep;
                adj_sol' = h_adj_sol prep
            in
            res_bind (py_index (outputs blk) 0) (\<lambda>fwd_block_variable.
            let tlm_output = tlm_value fwd_block_variable;
                c_rep = saved_output block_var
            in
            if cls B c = ClsDirichletBC then
              (let tmp_bc = create_bc_value B c
                              (extract_subfunction B adj_sol2_bdy (function_space B c))
               in Inr (RList [tmp_bc]))
            else
              case (if cls B c_rep = ClsConstant then
                      (ad_function_space B c (Some (extract_mesh_from_form B F_form)), None)
                    else if cls B c = ClsExpression then
                      (ad_function_space B c (Some (ufl_cargo B (ufl_domain B F_form))), None)
                    else if cls B c = ClsMesh then
                      (ad_function_space B c None, Some (SpatialCoordinate B c))
                    else (function_space B c, None)) of (W, X) \<Rightarrow>
              let dc = TestFunction B W;
                  form_adj = action B F_form adj_sol';
                  form_adj2 = action B F_form adj_sol2
              in
              res_bind (if cls B c = ClsMesh
                        then (case X of
                                None \<Rightarrow> Inl UnboundLocalError
                              | Some x \<Rightarrow> Inr (backend_derivative B form_adj x (Some dc),
                                                backend_derivative B form_adj2 x (Some dc)))
                        else Inr (backend_derivative B form_adj c_rep (Some dc),
                                  backend_derivative B form_adj2 c_rep (Some dc)))
                (\<lambda>(dFdm_adj, dFdm_adj2).
              let d2Fdudm = expand_derivatives B
                              (backend_derivative B dFdm_adj (saved_output fwd_block_variable)
                                 tlm_output);
                  d2Fdm2 = foldl (hessian_step B blk dFdm_adj) None relevant_dependencies;
                  hessian_form = expand_derivatives B
                                   (op_add B (case d2Fdm2 of
                                                None \<Rightarrow> dFdm_adj2
                                              | Some d \<Rightarrow> op_add B d dFdm_adj2) d2Fdudm);
                  hessian_output = (if \<not> form_empty B hessian_form
                                    then PyObj (zero_sub B
                                                 (assemble_adjoint_value B hessian_form [] None))
                                    else PyInt 0)
              in if cls B c = ClsExpression then Inr (RPairs [(hessian_output, W)])
                 else Inr (RValue hessian_output))))"

subsection \<open>The overloaded solve\<close>

text \<open>
  What \<open>solve\<close> acts on: the working tape, the calls of \<open>backend.solve\<close> made so far
  (positional and keyword arguments of each call, in order), and the block variables
  made by \<open>create_block_variable()\<close> so far.

  Modelled from the spec: the class \<open>Tape\<close> of \<open>pyadjoint.tape\<close> is not among the source
  files. The tape is an append-only, insertion-ordered sequence of blocks, and
  \<open>add_block(b)\<close> appends.
\<close>

record 'v world =
  tape :: "'v solve_block list"
  solve_calls :: "('v pyval list \<times> 'v kwargs) list"
  created_block_variables :: "'v block_variable list"

definition add_block :: "'v solve_block \<Rightarrow> 'v world \<Rightarrow> 'v world" where
  "add_block b w = w\<lparr>tape := tape w @ [b]\<rparr>"

text \<open>The class attribute \<open>pop_kwargs_keys\<close>, the same for the three classes.\<close>

definition pop_kwargs_keys :: "string list" where
  "pop_kwargs_keys = [''adj_cb'', ''adj_bdy_cb'', ''adj2_cb'', ''adj2_bdy_cb'',
                      ''forward_args'', ''forward_kwargs'', ''adj_args'', ''adj_kwargs'']"

text \<open>\<open>solve_block_type(*args, **sb_kwargs)\<close> for the two classes \<open>solve\<close> chooses from.\<close>

definition construct_block ::
  "'v backend \<Rightarrow> 'v enlisting \<Rightarrow> block_class \<Rightarrow> 'v pyval list \<Rightarrow> 'v kwargs \<Rightarrow>
   py_error + 'v solve_block" where
  "construct_block B L solve_block_type args kwargs =
     (case solve_block_type of
        SolveVarFormBlock \<Rightarrow> SolveVarFormBlock_init B L args kwargs
      | SolveLinearSystemBlock \<Rightarrow> SolveLinearSystemBlock_init B L args kwargs
      | GenericSolveBlock \<Rightarrow> GenericSolveBlock_init B L GenericSolveBlock args kwargs)"

text \<open>
  The object whose \<open>create_block_variable()\<close> is called for the output: \<open>args[1]\<close> when
  it has the method, \<open>args[1].function\<close> otherwise.
\<close>

definition output_target :: "'v backend \<Rightarrow> 'v pyval \<Rightarrow> py_error + 'v" where
  "output_target B a1 =
     (if py_hasattr B a1 ''create_block_variable'' then as_obj a1
      else res_bind (py_getattr B a1 ''function'') as_obj)"

text \<open>
  \<open>solve(*args, **kwargs)\<close>. The block appended to the tape and the block that gets the
  output are one object, so the entry of the tape is the block with its output. An
  exception leaves the world as it is at that moment. The context \<open>stop_annotating()\<close>
  around the backend call concerns annotation inside the backend and is left out.
\<close>

definition solve ::
  "'v backend \<Rightarrow> 'v enlisting \<Rightarrow> 'v pyval list \<Rightarrow> 'v kwargs \<Rightarrow> 'v world \<Rightarrow>
   (py_error + 'v pyval) \<times> 'v world" where
  "solve B L args kwargs w =
     (case annotate_tape B kwargs of (annotate, kwargs1) \<Rightarrow>
      if annotate then
        (case py_index args 0 of
           Inl e \<Rightarrow> (Inl e, w)
         | Inr a0 \<Rightarrow>
             let solve_block_type = (if \<not> isinstance B a0 ClsEquation then SolveLinearSystemBlock
                                     else SolveVarFormBlock) in
             case pop_kwargs B pop_kwargs_keys kwargs1 of (sb_kwargs, kwargs2) \<Rightarrow>
             let sb_kwargs' = dict_update sb_kwargs kwargs2 in
             case construct_block B L solve_block_type args sb_kwargs' of
               Inl e \<Rightarrow> (Inl e, w)
             | Inr block \<Rightarrow>
                 let w1 = add_block block w;
                     out = backend_solve B args kwargs2;
                     w2 = w1\<lparr>solve_calls := solve_calls w1 @ [(args, kwargs2)]\<rparr>
                 in
                 case res_bind (py_index args 1) (output_target B) of
                   Inl e \<Rightarrow> (Inl e, w2)
                 | Inr target \<Rightarrow>
                     let bv = create_block_variable B target;
                         w3 = w2\<lparr>created_block_variables := created_block_variables w2 @ [bv]\<rparr>
                     in (Inr out, w3\<lparr>tape := (tape w3)[length (tape w) := add_output bv block]\<rparr>))
      else
        (let out = backend_solve B args kwargs1
         in (Inr out, w\<lparr>solve_calls := solve_calls w @ [(args, kwargs1)]\<rparr>)))"

section \<open>A symbolic backend\<close>

text \<open>
  One instance of the record \<open>backend\<close>, for running the model on concrete input: its
  objects are terms, and every call into the backend builds the term that names the call.
  An atom is an object given from outside (a function, a constant, a boundary condition,
  a mesh) with its class and a number; \<open>App ''form'' [e]\<close> is the form with integrand
  \<open>e\<close>, \<open>App ''equation'' [l, r]\<close> the equation \<open>l == r\<close>, \<open>SInt n\<close> a Python integer
  inside an equation.
\<close>

datatype sym = Atom pyclass nat | SInt int | App string "sym list"

fun sym_cls :: "sym \<Rightarrow> pyclass" where
  "sym_cls (Atom k n) = k"
| "sym_cls (SInt n) = ClsOther"
| "sym_cls (App f xs) =
     (if f = ''form'' then ClsForm else if f = ''equation'' then ClsEquation else ClsOther)"

fun sym_val :: "sym \<Rightarrow> sym pyval" where
  "sym_val (SInt n) = PyInt n"
| "sym_val x = PyObj x"

text \<open>
  Attributes: the two sides of an equation, the form of an assembled matrix or vector,
  the function of the vector of a function, and the method \<open>create_block_variable\<close> of
  an overloaded function.
\<close>

fun sym_attr :: "sym \<Rightarrow> string \<Rightarrow> sym pyval option" where
  "sym_attr (App f xs) name =
     (if f = ''equation'' \<and> name = ''lhs'' then (case xs of [l, r] \<Rightarrow> Some (sym_val l) | _ \<Rightarrow> None)
      else if f = ''equation'' \<and> name = ''rhs'' then
        (case xs of [l, r] \<Rightarrow> Some (sym_val r) | _ \<Rightarrow> None)
      else if f = ''assemble'' \<and> name = ''form'' then
        (case xs of [a] \<Rightarrow> Some (PyObj a) | _ \<Rightarrow> None)
      else if f = ''vector'' \<and> name = ''function'' then
        (case xs of [a] \<Rightarrow> Some (PyObj a) | _ \<Rightarrow> None)
      else None)"
| "sym_attr (Atom k n) name =
     (if k = ClsFunction \<and> name = ''create_block_variable'' then Some (PyStr ''method'')
      else None)"
| "sym_attr (SInt n) name = None"

text \<open>
  The coefficients of a term are the functions, constants and expressions that occur in
  it, each once. A test or trial function is an argument, and the function space it is
  made from holds no coefficient.
\<close>

fun sym_atoms :: "sym \<Rightarrow> sym list" where
  "sym_atoms (Atom k n) = [Atom k n]"
| "sym_atoms (SInt n) = []"
| "sym_atoms (App f xs) =
     (if f = ''TestFunction'' \<or> f = ''TrialFunction'' \<or> f = ''function_space'' then []
      else concat (map sym_atoms xs))"

definition sym_coefficients :: "sym \<Rightarrow> sym list" where
  "sym_coefficients x =
     remdups (filter (\<lambda>a. sym_cls a = ClsFunction \<or> sym_cls a = ClsConstant
                            \<or> sym_cls a = ClsExpression) (sym_atoms x))"

fun sym_arguments :: "sym \<Rightarrow> sym list" where
  "sym_arguments (Atom k n) = []"
| "sym_arguments (SInt n) = []"
| "sym_arguments (App f xs) =
     (if f = ''TestFunction'' \<or> f = ''TrialFunction'' then [App f xs]
      else concat (map sym_arguments xs))"

definition opt_list :: "'a option \<Rightarrow> 'a list" where
  "opt_list x = (case x of None \<Rightarrow> [] | Some y \<Rightarrow> [y])"

text \<open>
  Modelled from the spec: \<open>annotate_tape\<close> of \<open>pyadjoint.tape\<close> and the class method
  \<open>pop_kwargs\<close> of \<open>Block\<close> are not among the source files. The instance follows
  what \<open>solve\<close> says of them: annotation is disabled by passing \<open>annotate=False\<close>, and
  the call then acts like the solve of the backend, which has no such keyword, so
  \<open>annotate_tape\<close> pops the keyword \<open>annotate\<close> (default true); \<open>pop_kwargs\<close> moves those
  of the keys of \<open>pop_kwargs_keys\<close> that are present into a new dictionary.
\<close>

definition sym_annotate_tape :: "sym kwargs \<Rightarrow> bool \<times> sym kwargs" where
  "sym_annotate_tape kw = (case dict_pop ''annotate'' (PyBool True) kw of
                             (v, kw') \<Rightarrow> (py_truthy v, kw'))"

definition sym_pop_kwargs :: "string list \<Rightarrow> sym kwargs \<Rightarrow> sym kwargs \<times> sym kwargs" where
  "sym_pop_kwargs keys kw =
     (concat (map (\<lambda>k. case map_of kw k of None \<Rightarrow> [] | Some v \<Rightarrow> [(k, v)]) keys),
      filter (\<lambda>(k, v). k \<notin> set keys) kw)"

definition sym_block_variable :: "sym \<Rightarrow> sym block_variable" where
  "sym_block_variable x = \<lparr>bv_output = x, saved_output = x, tlm_value = None\<rparr>"

definition sym_backend :: "sym backend" where
  "sym_backend =
     \<lparr>backend_name = ''fenics'',
      cls = sym_cls,
      attr = sym_attr,
      coefficients = sym_coefficients,
      arguments = sym_arguments,
      ufl_domain = (\<lambda>f. App ''ufl_domain'' [f]),
      ufl_cargo = (\<lambda>d. App ''ufl_cargo'' [d]),
      has_integrals = (\<lambda>f. True),
      form_empty = (\<lambda>f. False),
      replace = (\<lambda>f m. App ''replace'' (f # concat (map (\<lambda>(a, b). [a, b]) m))),
      expand_derivatives = (\<lambda>f. App ''expand_derivatives'' [f]),
      op_add = (\<lambda>a b. App ''add'' [a, b]),
      op_sub = (\<lambda>a b. App ''sub'' [a, b]),
      op_mul = (\<lambda>a b. App ''mul'' [a, b]),
      op_neg = (\<lambda>a. App ''neg'' [a]),
      zero_sub = (\<lambda>a. App ''sub'' [SInt 0, a]),
      action = (\<lambda>f u. App ''action'' [f, u]),
      adjoint = (\<lambda>f. App ''adjoint'' [f]),
      backend_derivative = (\<lambda>f u du. App ''derivative'' (f # u # opt_list du)),
      TrialFunction = (\<lambda>V. App ''TrialFunction'' [V]),
      TestFunction = (\<lambda>V. App ''TestFunction'' [V]),
      SpatialCoordinate = (\<lambda>m. App ''SpatialCoordinate'' [m]),
      Function = (\<lambda>V. App ''Function'' [V]),
      zero_Constant = (\<lambda>v. App ''Constant'' [App ''zeros'' [App ''ufl_shape'' [v]]]),
      inner = (\<lambda>a b. App ''inner'' [a, b]),
      dx = App ''dx'' [],
      function_space = (\<lambda>u. App ''function_space'' [u]),
      ad_function_space = (\<lambda>c m. App ''_ad_function_space'' (c # opt_list m)),
      bc_apply = (\<lambda>bc x. App ''apply'' [bc, x]),
      bc_apply2 = (\<lambda>bc A b. (App ''apply'' [bc, A], App ''apply'' [bc, b])),
      backend_solve = (\<lambda>args kw. PyNone),
      solve_assembled = (\<lambda>A u b. App ''solve'' [A, u, b]),
      assemble = (\<lambda>f. App ''assemble'' [f]),
      assemble_system = (\<lambda>a l bs. (App ''assemble_system_A'' (a # l # bs),
                                  App ''assemble_system_b'' (a # l # bs))),
      lu_solver_methods = [PyStr ''default'', PyStr ''umfpack'', PyStr ''mumps''],
      LUSolver_solve = (\<lambda>m p A x b. App ''LUSolver_solve'' [A, x, b]),
      KrylovSolver_solve = (\<lambda>a p A x b. App ''KrylovSolver_solve'' [A, x, b]),
      create_function = (\<lambda>V. App ''create_function'' [V]),
      create_bc_homogenize = (\<lambda>bc. App ''create_bc'' [bc, App ''homogenize'' []]),
      create_bc_value = (\<lambda>bc v. App ''create_bc'' [bc, v]),
      assemble_adjoint_value = (\<lambda>f kw bs. App ''assemble_adjoint_value''
                                           (f # (case bs of None \<Rightarrow> [] | Some l \<Rightarrow> l))),
      linalg_solve = (\<lambda>A x b args kw. App ''linalg_solve'' [A, x, b]),
      function_from_vector = (\<lambda>V x. App ''function_from_vector'' [V, x]),
      extract_mesh_from_form = (\<lambda>f. App ''extract_mesh_from_form'' [f]),
      extract_subfunction = (\<lambda>u V. App ''extract_subfunction'' (opt_list u @ [V])),
      annotate_tape = sym_annotate_tape,
      pop_kwargs = sym_pop_kwargs,
      block_variable = sym_block_variable,
      create_block_variable = sym_block_variable\<rparr>"

subsection \<open>Concrete forms, equations and blocks\<close>

text \<open>
  The unknown \<open>u\<close>, a source term \<open>f\<close>, a boundary condition and the test and trial
  functions of the space of \<open>u\<close>.
\<close>

definition ex_u :: sym where "ex_u = Atom ClsFunction 0"
definition ex_f :: sym where "ex_f = Atom ClsFunction 1"
definition ex_bc :: sym where "ex_bc = Atom ClsDirichletBC 0"
definition ex_v :: sym where "ex_v = App ''TestFunction'' [App ''function_space'' [Atom ClsFunction 0]]"
definition ex_du :: sym where "ex_du = App ''TrialFunction'' [App ''function_space'' [Atom ClsFunction 0]]"

text \<open>
  Three forms: \<open>inner(grad(u), grad(v))*dx\<close>, in which the unknown occurs once;
  \<open>u*u*v*dx\<close>, in which it occurs squared; and \<open>f*v*dx\<close>, without it.
\<close>

definition ex_laplace :: sym where
  "ex_laplace = App ''form'' [App ''inner'' [App ''grad'' [ex_u], App ''grad'' [ex_v]]]"

definition ex_square :: sym where
  "ex_square = App ''form'' [App ''mul'' [App ''mul'' [ex_u, ex_u], ex_v]]"

definition ex_source :: sym where
  "ex_source = App ''form'' [App ''mul'' [ex_f, ex_v]]"

text \<open>
  A reading of the words of the specification, "expression-linear in the unknown", to
  compare the flag \<open>linear\<close> with: the degree of a term in the unknown \<open>u\<close> adds up over
  the factors of a product and is the largest degree of the arguments otherwise (a test
  or trial function and a function space do not contain the unknown); a side of an
  equation is linear in \<open>u\<close> when it is a number or a term of degree at most one.
\<close>

fun degree_in :: "sym \<Rightarrow> sym \<Rightarrow> nat" where
  "degree_in u (Atom k n) = (if Atom k n = u then 1 else 0)"
| "degree_in u (SInt n) = 0"
| "degree_in u (App f xs) =
     (if f = ''TestFunction'' \<or> f = ''TrialFunction'' \<or> f = ''function_space'' then 0
      else if f = ''mul'' \<or> f = ''inner'' then sum_list (map (degree_in u) xs)
      else foldr max (map (degree_in u) xs) 0)"

definition spec_expression_linear :: "sym \<Rightarrow> sym pyval \<Rightarrow> bool" where
  "spec_expression_linear u x =
     (case x of PyObj e \<Rightarrow> degree_in u e \<le> 1 | PyInt n \<Rightarrow> True | PyFloat r \<Rightarrow> True | _ \<Rightarrow> False)"

text \<open>
  The bilinear form \<open>inner(grad(du), grad(v))*dx\<close> of the linear problem, the mesh the
  constructor finds for the forms above, and the vectors handed to the passes: the seed of
  the adjoint pass, the seed of the second-order pass and a tangent-linear value.
\<close>

definition ex_bilinear :: sym where
  "ex_bilinear = App ''form'' [App ''inner'' [App ''grad'' [ex_du], App ''grad'' [ex_v]]]"

definition ex_mesh :: "sym \<Rightarrow> sym" where
  "ex_mesh form = App ''ufl_cargo'' [App ''ufl_domain'' [form]]"

definition ex_seed :: sym where "ex_seed = App ''dJdu'' []"
definition ex_hseed :: sym where "ex_hseed = App ''hessian_input'' []"
definition ex_tlm :: sym where "ex_tlm = App ''tlm_value'' []"

text \<open>The output of a block for the unknown, with its checkpoint and a tangent-linear value.\<close>

definition ex_output :: "sym option \<Rightarrow> sym block_variable" where
  "ex_output t = \<lparr>bv_output = ex_u, saved_output = App ''checkpoint'' [ex_u], tlm_value = t\<rparr>"

text \<open>
  The block that \<open>solve(inner(grad(u), grad(v))*dx == 0, u, bc)\<close> records (a residual with
  right-hand side \<open>0\<close>, so not flagged linear), with a given cached adjoint solution and
  given outputs.
\<close>

definition ex_block :: "sym option \<Rightarrow> sym block_variable list \<Rightarrow> sym solve_block" where
  "ex_block a outs =
     \<lparr>block_class = SolveVarFormBlock,
      adj_cb = PyNone, adj_bdy_cb = PyNone, adj2_cb = PyNone, adj2_bdy_cb = PyNone,
      adj_sol = a,
      forward_args = PySeq [], forward_kwargs = PyDict [], adj_args = PySeq [],
      adj_kwargs = PyDict [],
      assemble_kwargs = [],
      lhs = ex_laplace, rhs = PyInt 0, func = ex_u,
      blk_function_space = App ''function_space'' [ex_u],
      bcs = [ex_bc],
      linear = False,
      dependencies = [sym_block_variable ex_u, sym_block_variable ex_bc,
                      sym_block_variable (ex_mesh ex_laplace)],
      outputs = outs,
      ident_zeros_tol = PyNone, blk_assemble_system = False,
      cb_calls = []\<rparr>"

text \<open>
  The block that \<open>solve(inner(grad(du), grad(v))*dx == f*v*dx, u, bc)\<close> records, flagged
  linear.
\<close>

definition ex_linear_block :: "sym option \<Rightarrow> sym block_variable list \<Rightarrow> sym solve_block" where
  "ex_linear_block a outs =
     \<lparr>block_class = SolveVarFormBlock,
      adj_cb = PyNone, adj_bdy_cb = PyNone, adj2_cb = PyNone, adj2_bdy_cb = PyNone,
      adj_sol = a,
      forward_args = PySeq [], forward_kwargs = PyDict [], adj_args = PySeq [],
      adj_kwargs = PyDict [],
      assemble_kwargs = [],
      lhs = ex_bilinear, rhs = PyObj ex_source, func = ex_u,
      blk_function_space = App ''function_space'' [ex_u],
      bcs = [ex_bc],
      linear = True,
      dependencies = [sym_block_variable ex_f, sym_block_variable ex_bc,
                      sym_block_variable (ex_mesh ex_bilinear)],
      outputs = outs,
      ident_zeros_tol = PyNone, blk_assemble_system = False,
      cb_calls = []\<rparr>"

text \<open>The arguments of the two calls of \<open>solve\<close> and the empty world.\<close>

definition ex_args :: "sym pyval list" where
  "ex_args = [PyObj (App ''equation'' [ex_laplace, SInt 0]), PyObj ex_u, PyObj ex_bc]"

definition ex_linear_args :: "sym pyval list" where
  "ex_linear_args = [PyObj (App ''equation'' [ex_bilinear, ex_source]), PyObj ex_u, PyObj ex_bc]"

definition ex_world :: "sym world" where
  "ex_world = \<lparr>tape = [], solve_calls = [], created_block_variables = []\<rparr>"

section \<open>Properties of convergence\_rates\<close>


lemma epsilons_eq: "epsilons = [0.01, 0.005, 0.0025, 0.00125]"
  by (simp add: epsilons_def upt_rec)

lemma rates_loop_length:
  "rates_loop E eps is r = Inr r' \<Longrightarrow> length r' = length r + length is"
  by (induction "is" arbitrary: r) (auto simp: res_bind_def split: sum.splits)

lemma convergence_rates_length:
  "convergence_rates E eps = Inr r \<Longrightarrow> length r = length eps - 1"
  by (auto simp: convergence_rates_def dest: rates_loop_length)






section \<open>Properties of taylor\_test\<close>




lemma taylor_test_body:
  "length (controls J) \<le> 1 \<or> (is_list_or_tuple m \<and> is_list_or_tuple h) \<Longrightarrow>
   taylor_test T L J m h dJdm Hm s = taylor_body T L J m h dJdm Hm s"
  by (auto simp: taylor_test_def taylor_body_def)


lemma residuals_loop_length:
  "residuals_loop T L J m hs Jm d Hm es acc s = (Inr rs, s') \<Longrightarrow> length rs = length acc + length es"
  by (induction es arbitrary: acc s) (auto split: sum.splits prod.splits)


lemma py_min_no_ValueError: "xs \<noteq> [] \<Longrightarrow> py_min xs \<noteq> Inl ValueError"
  by (cases xs) (auto simp: py_min_def)

lemma residuals_loop_no_ValueError:
  "fst (residuals_loop T L J m hs Jm d Hm es acc s) \<noteq> Inl ValueError"
  by (induction es arbitrary: acc s) (auto simp: perturbe_def split: sum.splits prod.splits option.splits)

lemma rate_at_no_ValueError: "rate_at E eps i \<noteq> Inl ValueError"
  by (auto simp: rate_at_def res_bind_def py_index_def py_truediv_def split: sum.splits)

lemma rates_loop_no_ValueError: "rates_loop E eps is r \<noteq> Inl ValueError"
  using rate_at_no_ValueError
  by (induction "is" arbitrary: r) (auto simp: res_bind_def split: sum.splits)

lemma taylor_body_no_ValueError:
  "fst (taylor_body T L J m h dJdm Hm s) \<noteq> Inl ValueError"
proof -
  have "res_bind (convergence_rates rs epsilons) py_min \<noteq> Inl ValueError" for rs
  proof (cases "convergence_rates rs epsilons")
    case (Inl e)
    then show ?thesis using rates_loop_no_ValueError[of rs epsilons] by (auto simp: res_bind_def convergence_rates_def)
  next
    case (Inr r)
    then have "length r = 3" using convergence_rates_length[OF Inr] by (simp add: epsilons_eq)
    then have "r \<noteq> []" by auto
    then show ?thesis using Inr py_min_no_ValueError by (simp add: res_bind_def)
  qed
  then have *: "res_bind R (\<lambda>rs. res_bind (convergence_rates rs epsilons) py_min) \<noteq> Inl ValueError"
    if "R \<noteq> Inl ValueError" for R using that by (cases R) (auto simp: res_bind_def)
  obtain Jm s1 where c1: "call J m s = (Jm, s1)" by (cases "call J m s")
  obtain d s2 where c2: "(case dJdm of
                None \<Rightarrow> (case derivative J s1 of (d, s2) \<Rightarrow> (contract T (Enlist L h) (Enlist L d), s2))
              | Some d \<Rightarrow> (d, s1)) = (d, s2)" by fastforce
  obtain R s3 where c3: "residuals_loop T L J m (Enlist L h) Jm d Hm epsilons [] s2 = (R, s3)"
    by fastforce
  have "R \<noteq> Inl ValueError"
    using residuals_loop_no_ValueError[of T L J m "Enlist L h" Jm d Hm epsilons "[]" s2] c3 by simp
  then show ?thesis
    unfolding taylor_body_def Let_def by (simp add: c1 c2 c3 *)
qed





text \<open>
  C9: with more than one control, a point or a direction that is neither a list nor a
  tuple makes \<open>taylor_test\<close> raise \<open>ValueError\<close> with the state of the functional
  untouched, that is before any evaluation of \<open>J\<close>; with at most one control
  \<open>taylor_test\<close> never ends in \<open>ValueError\<close>.
\<close>

theorem taylor_test_validation:
  "(1 < length (controls J) \<and> (\<not> is_list_or_tuple m \<or> \<not> is_list_or_tuple h) \<longrightarrow>
      taylor_test T L J m h dJdm Hm s = (Inl ValueError, s)) \<and>
   (length (controls J) \<le> 1 \<longrightarrow> fst (taylor_test T L J m h dJdm Hm s) \<noteq> Inl ValueError)"
  using taylor_body_no_ValueError[of T L J m h dJdm Hm s] taylor_test_body[of J m h T L dJdm Hm s]
  by (auto simp: taylor_test_def)

theorem taylor_test_validation_witness: "taylor_test real_type std_enlisting (logged_functional 2 (\<lambda>x. x ^ 2) (\<lambda>x. 2 * x))
      (Obj 1) (PyList [1, 1]) None 0 [] = (Inl ValueError, []) \<and>
    fst (taylor_test real_type std_enlisting (logged_functional 1 (\<lambda>x. x ^ 2) (\<lambda>x. 2 * x))
      (Obj 1) (Obj 1) None 0 []) \<noteq> Inl ValueError"
  using taylor_test_validation [where J = "logged_functional 2 (\<lambda>x. x ^ 2) (\<lambda>x. 2 * x)"
       and m = "Obj 1" and h = "PyList [1, 1]" and T = real_type and L = std_enlisting
       and dJdm = None and Hm = 0 and s = "[]"]
    taylor_test_validation [where J = "logged_functional 1 (\<lambda>x. x ^ 2) (\<lambda>x. 2 * x)"
       and m = "Obj 1" and h = "Obj 1" and T = real_type and L = std_enlisting
       and dJdm = None and Hm = 0 and s = "[]"]
  by (simp add: logged_functional_def)


section \<open>Properties of the construction of a block\<close>

lemma res_bind_Inr_iff:
  "res_bind r f = Inr y \<longleftrightarrow> (\<exists>x. r = Inr x \<and> f x = Inr y)"
  by (cases r) (auto simp: res_bind_def)

lemma res_bind_Inr [simp]: "res_bind (Inr x) f = f x"
  by (simp add: res_bind_def)

lemma res_bind_Inl [simp]: "res_bind (Inl e) f = Inl e"
  by (simp add: res_bind_def)

lemma init_generic_shape:
  assumes "init_solver_parameters_generic blk args kw = Inr (blk', kw')"
  shows "\<exists>fa fk aa ak. blk' = blk\<lparr>forward_args := fa, forward_kwargs := fk, adj_args := aa,
            adj_kwargs := ak, assemble_kwargs := []\<rparr>"
proof -
  obtain fa kw1 where 1: "dict_pop ''forward_args'' (PySeq []) kw = (fa, kw1)"
    by (cases "dict_pop ''forward_args'' (PySeq []) kw")
  obtain fk kw2 where 2: "dict_pop ''forward_kwargs'' (PyDict []) kw1 = (fk, kw2)"
    by (cases "dict_pop ''forward_kwargs'' (PyDict []) kw1")
  obtain aa kw3 where 3: "dict_pop ''adj_args'' (PySeq []) kw2 = (aa, kw3)"
    by (cases "dict_pop ''adj_args'' (PySeq []) kw2")
  obtain ak kw4 where 4: "dict_pop ''adj_kwargs'' (PyDict []) kw3 = (ak, kw4)"
    by (cases "dict_pop ''adj_kwargs'' (PyDict []) kw3")
  from assms show ?thesis
    unfolding init_solver_parameters_generic_def 1 2 3 4 prod.case by blast
qed

lemma init_generic_fields:
  assumes "init_solver_parameters_generic blk args kw = Inr (blk', kw')"
  shows "linear blk' = linear blk \<and> outputs blk' = outputs blk \<and> adj_sol blk' = adj_sol blk
         \<and> rhs blk' = rhs blk"
  using init_generic_shape[OF assms] by auto

lemma init_linear_system_fields:
  assumes "init_solver_parameters_linear_system blk args kw = Inr (blk', kw')"
  shows "linear blk' = linear blk \<and> outputs blk' = outputs blk \<and> adj_sol blk' = adj_sol blk
         \<and> rhs blk' = rhs blk"
proof -
  from assms obtain b0 kw0 where g: "init_solver_parameters_generic blk args kw = Inr (b0, kw0)"
    unfolding init_solver_parameters_linear_system_def
    by (cases "init_solver_parameters_generic blk args kw") auto
  from assms obtain n1 where n1: "py_len (forward_args b0) = Inr n1"
    unfolding init_solver_parameters_linear_system_def g res_bind_Inr prod.case
    by (cases "py_len (forward_args b0)") auto
  let ?b1 = "if n1 \<le> 0 then b0\<lparr>forward_args := PySeq args\<rparr> else b0"
  from assms obtain n2 where n2: "py_len (adj_args ?b1) = Inr n2"
    unfolding init_solver_parameters_linear_system_def g n1 res_bind_Inr prod.case Let_def
    by (cases "py_len (adj_args ?b1)") auto
  from assms have "blk' = (if n2 \<le> 0 then ?b1\<lparr>adj_args := forward_args ?b1\<rparr> else ?b1)"
    unfolding init_solver_parameters_linear_system_def g n1 res_bind_Inr prod.case Let_def n2
    by simp
  then show ?thesis using init_generic_fields[OF g] by simp
qed

lemma var_form_mat_type_fields:
  assumes "var_form_mat_type blk = Inr blk'"
  shows "linear blk' = linear blk \<and> outputs blk' = outputs blk \<and> adj_sol blk' = adj_sol blk
         \<and> rhs blk' = rhs blk \<and> adj_kwargs blk' = adj_kwargs blk"
  using assms unfolding var_form_mat_type_def
  by (auto simp: res_bind_Inr_iff split: if_splits)

lemma var_form_adj_args_fields:
  assumes "var_form_adj_args blk sp = Inr blk'"
  shows "linear blk' = linear blk \<and> outputs blk' = outputs blk \<and> adj_sol blk' = adj_sol blk
         \<and> rhs blk' = rhs blk"
  using assms unfolding var_form_adj_args_def
  by (auto simp: res_bind_Inr_iff split: if_splits)

lemma var_form_adj_parameters_fields:
  assumes "var_form_adj_parameters blk kw = Inr blk'"
  shows "linear blk' = linear blk \<and> outputs blk' = outputs blk \<and> adj_sol blk' = adj_sol blk
         \<and> rhs blk' = rhs blk"
proof -
  from assms obtain n where n: "py_len (adj_kwargs blk) = Inr n"
    unfolding var_form_adj_parameters_def by (cases "py_len (adj_kwargs blk)") auto
  show ?thesis
  proof (cases "n \<le> 0")
    case True
    let ?sp = "dict_get ''solver_parameters'' (PyDict []) kw"
    from assms True obtain b where b: "var_form_adj_args blk ?sp = Inr b"
      and blk': "blk' = b\<lparr>adj_kwargs := ?sp\<rparr>"
      unfolding var_form_adj_parameters_def n res_bind_Inr Let_def
      by (cases "var_form_adj_args blk ?sp") auto
    show ?thesis using var_form_adj_args_fields[OF b] blk' by simp
  next
    case False
    then show ?thesis using assms unfolding var_form_adj_parameters_def n res_bind_Inr by simp
  qed
qed

lemma init_var_form_fields:
  assumes "init_solver_parameters_var_form blk args kw = Inr (blk', kw')"
  shows "linear blk' = linear blk \<and> outputs blk' = outputs blk \<and> adj_sol blk' = adj_sol blk
         \<and> rhs blk' = rhs blk"
proof -
  from assms obtain b0 kw0 where g: "init_solver_parameters_generic blk args kw = Inr (b0, kw0)"
    unfolding init_solver_parameters_var_form_def
    by (cases "init_solver_parameters_generic blk args kw") auto
  from assms obtain n1 where n1: "py_len (forward_args b0) = Inr n1"
    unfolding init_solver_parameters_var_form_def g res_bind_Inr prod.case
    by (cases "py_len (forward_args b0)") auto
  let ?b1 = "if n1 \<le> 0 then b0\<lparr>forward_args := PySeq args\<rparr> else b0"
  from assms obtain n2 where n2: "py_len (forward_kwargs ?b1) = Inr n2"
    unfolding init_solver_parameters_var_form_def g n1 res_bind_Inr prod.case Let_def
    by (cases "py_len (forward_kwargs ?b1)") auto
  let ?b2 = "if n2 \<le> 0 then ?b1\<lparr>forward_kwargs := PyDict kw0\<rparr> else ?b1"
  have rest: "res_bind (var_form_mat_type ?b2) (\<lambda>b3.
          res_bind (var_form_adj_parameters b3 kw0) (\<lambda>b4. Inr (b4, kw0))) = Inr (blk', kw')"
    using assms unfolding init_solver_parameters_var_form_def g
    by (simp only: res_bind_Inr prod.case Let_def n1 n2)
  then obtain b3 where 3: "var_form_mat_type ?b2 = Inr b3"
    and 4: "var_form_adj_parameters b3 kw0 = Inr blk'"
    unfolding res_bind_Inr_iff by auto
  have "linear ?b2 = linear b0 \<and> outputs ?b2 = outputs b0 \<and> adj_sol ?b2 = adj_sol b0
        \<and> rhs ?b2 = rhs b0"
    by simp
  then show ?thesis
    using init_generic_fields[OF g] var_form_mat_type_fields[OF 3]
      var_form_adj_parameters_fields[OF 4] by simp
qed

lemma init_solver_parameters_fields:
  assumes "init_solver_parameters blk args kw = Inr (blk', kw')"
  shows "linear blk' = linear blk \<and> outputs blk' = outputs blk \<and> adj_sol blk' = adj_sol blk
         \<and> rhs blk' = rhs blk"
proof (cases "block_class blk")
  case GenericSolveBlock
  then show ?thesis using assms init_generic_fields[of blk args kw blk' kw']
    by (simp add: init_solver_parameters_def)
next
  case SolveLinearSystemBlock
  then show ?thesis using assms init_linear_system_fields[of blk args kw blk' kw']
    by (simp add: init_solver_parameters_def)
next
  case SolveVarFormBlock
  then show ?thesis using assms init_var_form_fields[of blk args kw blk' kw']
    by (simp add: init_solver_parameters_def)
qed

lemma py_index_0 [simp]: "py_index (x # xs) 0 = Inr x"
  by (simp add: py_index_def)

lemma add_dependency_fields [simp]:
  "linear (add_dependency B c d blk) = linear blk"
  "outputs (add_dependency B c d blk) = outputs blk"
  "adj_sol (add_dependency B c d blk) = adj_sol blk"
  "rhs (add_dependency B c d blk) = rhs blk"
  by (simp_all add: add_dependency_def)

lemma add_dependencies_fields [simp]:
  "linear (add_dependencies B cs blk) = linear blk"
  "outputs (add_dependencies B cs blk) = outputs blk"
  "adj_sol (add_dependencies B cs blk) = adj_sol blk"
  "rhs (add_dependencies B cs blk) = rhs blk"
  unfolding add_dependencies_def
  by (induction cs arbitrary: blk) simp_all

lemma bind_params_four_eq:
  "bind_params [(n1, None), (n2, None), (n3, None), (n4, None)] (a # b # c # d # extra) kw =
    (if map_of kw n1 \<noteq> None \<or> map_of kw n2 \<noteq> None \<or> map_of kw n3 \<noteq> None \<or> map_of kw n4 \<noteq> None
     then Inl TypeError else Inr ([a, b, c, d], extra, kw))"
  by simp

lemma bind_params_four:
  assumes "bind_params [(n1, None), (n2, None), (n3, None), (n4, None)] (a # b # c # d # extra) kw = Inr r"
  shows "r = ([a, b, c, d], extra, kw)"
proof (cases "map_of kw n1 \<noteq> None \<or> map_of kw n2 \<noteq> None \<or> map_of kw n3 \<noteq> None \<or> map_of kw n4 \<noteq> None")
  case True
  then show ?thesis using assms unfolding bind_params_four_eq by simp
next
  case False
  then show ?thesis using assms unfolding bind_params_four_eq by simp
qed

lemma register_dependencies_fields:
  "linear (register_dependencies B blk) =
     (cls B (lhs blk) = ClsForm \<and> isinstance B (rhs blk) ClsForm)"
  "outputs (register_dependencies B blk) = outputs blk"
  "adj_sol (register_dependencies B blk) = adj_sol blk"
  "rhs (register_dependencies B blk) = rhs blk"
  by (simp_all add: register_dependencies_def Let_def isinstance_def)

lemma fresh_block_fields:
  "lhs (fresh_block B k cb1 cb2 cb3 cb4 lhs_o rhs_v func_o bcs_l) = lhs_o"
  "rhs (fresh_block B k cb1 cb2 cb3 cb4 lhs_o rhs_v func_o bcs_l) = rhs_v"
  "outputs (fresh_block B k cb1 cb2 cb3 cb4 lhs_o rhs_v func_o bcs_l) = []"
  "adj_sol (fresh_block B k cb1 cb2 cb3 cb4 lhs_o rhs_v func_o bcs_l) = None"
  by (simp_all add: fresh_block_def)

lemma as_obj_Inr: "as_obj x = Inr v \<Longrightarrow> x = PyObj v"
  by (cases x) (simp_all add: as_obj_def)

lemma GenericSolveBlock_init_fields:
  assumes "GenericSolveBlock_init B L k (lhs_v # rhs_v # func_v # bcs_v # extra) kw = Inr blk"
  shows "linear blk = (isinstance B lhs_v ClsForm \<and> isinstance B rhs_v ClsForm)
         \<and> outputs blk = [] \<and> adj_sol blk = None \<and> rhs blk = rhs_v"
proof -
  from assms obtain r where
    r: "bind_params [(''lhs'', None), (''rhs'', None), (''func'', None), (''bcs'', None)]
          (lhs_v # rhs_v # func_v # bcs_v # extra) kw = Inr r"
    unfolding GenericSolveBlock_init_def res_bind_Inr_iff by blast
  have r': "r = ([lhs_v, rhs_v, func_v, bcs_v], extra, kw)"
    using bind_params_four[OF r] .
  obtain cb1 kw1 where p1: "dict_pop ''adj_cb'' PyNone kw = (cb1, kw1)" by fastforce
  obtain cb2 kw2 where p2: "dict_pop ''adj_bdy_cb'' PyNone kw1 = (cb2, kw2)" by fastforce
  obtain cb3 kw3 where p3: "dict_pop ''adj2_cb'' PyNone kw2 = (cb3, kw3)" by fastforce
  obtain cb4 kw4 where p4: "dict_pop ''adj2_bdy_cb'' PyNone kw3 = (cb4, kw4)" by fastforce
  from assms have "\<exists>func_o bcs_l lhs_o kw5. as_obj lhs_v = Inr lhs_o \<and>
      init_solver_parameters
        (register_dependencies B (fresh_block B k cb1 cb2 cb3 cb4 lhs_o rhs_v func_o bcs_l))
        extra kw4 = Inr (blk, kw5)"
    unfolding GenericSolveBlock_init_def r r'
    by (simp add: p1 p2 p3 p4 res_bind_Inr_iff) blast
  then obtain func_o bcs_l lhs_o kw5 where lhs_o: "as_obj lhs_v = Inr lhs_o"
    and init: "init_solver_parameters
        (register_dependencies B (fresh_block B k cb1 cb2 cb3 cb4 lhs_o rhs_v func_o bcs_l))
        extra kw4 = Inr (blk, kw5)" by blast
  have l: "lhs_v = PyObj lhs_o" using as_obj_Inr[OF lhs_o] .
  show ?thesis
    using init_solver_parameters_fields[OF init]
    by (simp add: register_dependencies_fields fresh_block_fields l isinstance_def)
qed

section \<open>Properties of the passes of a solve block\<close>

lemma create_F_form_ok:
  assumes "outputs blk = out # rest" and "linear blk \<longrightarrow> isinstance B (rhs blk) ClsForm"
  shows "\<exists>F. create_F_form B blk = Inr F"
proof (cases "linear blk")
  case True
  then obtain r where "rhs blk = PyObj r"
    using assms(2) by (cases "rhs blk") (auto simp: isinstance_def)
  then show ?thesis using True assms(1) by (simp add: create_F_form_def Let_def)
next
  case False
  then show ?thesis using assms(1) by (simp add: create_F_form_def Let_def)
qed

lemma sym_form_class: "isinstance sym_backend (PyObj ex_source) ClsForm"
  by (simp add: isinstance_def sym_backend_def ex_source_def)

text \<open>
  C3: a second-order adjoint pass on a block whose adjoint pass has not run (the cached
  adjoint solution is still \<open>None\<close>), with a seed and a tangent-linear value on the
  output, raises \<open>RuntimeError\<close>. The residual form can be built: the right-hand side
  of a block flagged linear is a form, as the constructor ensures.
\<close>

theorem prepare_evaluate_hessian_before_adjoint:
  assumes "adj_sol blk = None"
    and "outputs blk = out # rest" and "tlm_value out = Some t"
    and "hessian_inputs = Some h # hs"
    and "linear blk \<longrightarrow> isinstance B (rhs blk) ClsForm"
  shows "prepare_evaluate_hessian B blk inputs hessian_inputs adj_inputs relevant_dependencies
         = Inl RuntimeError"
proof -
  obtain F where F: "create_F_form B blk = Inr F"
    using create_F_form_ok[OF assms(2) assms(5)] by blast
  show ?thesis
    unfolding prepare_evaluate_hessian_def
    by (simp add: assms(1-4) F Let_def)
qed

theorem prepare_evaluate_hessian_before_adjoint_witness:
  "prepare_evaluate_hessian sym_backend (ex_linear_block None [ex_output (Some ex_tlm)])
     [] [Some ex_hseed] [ex_seed] [(2, sym_block_variable ex_bc)] = Inl RuntimeError"
  using prepare_evaluate_hessian_before_adjoint
    [where B = sym_backend and blk = "ex_linear_block None [ex_output (Some ex_tlm)]"
       and out = "ex_output (Some ex_tlm)" and rest = "[]" and t = ex_tlm
       and hessian_inputs = "[Some ex_hseed]" and h = ex_hseed and hs = "[]"
       and inputs = "[]" and adj_inputs = "[ex_seed]"
       and relevant_dependencies = "[(2, sym_block_variable ex_bc)]"]
    sym_form_class
  by (simp add: ex_linear_block_def ex_output_def)

text \<open>
  C4, as the claim states it, fails: with a seed but no tangent-linear value on the
  output, \<open>prepare_evaluate_hessian\<close> of the block recorded for
  \<open>solve(inner(grad(u), grad(v))*dx == 0, u, bc)\<close> does not fail; it returns \<open>None\<close>.
\<close>

theorem prepare_evaluate_hessian_no_tlm_returns:
  "prepare_evaluate_hessian sym_backend (ex_block None [ex_output None])
     [] [Some ex_hseed] [ex_seed] [(1, sym_block_variable ex_bc)]
   = Inr (None, ex_block None [ex_output None])"
  by (simp add: prepare_evaluate_hessian_def ex_block_def ex_output_def Let_def)

text \<open>
  C4, amended: for every block whose output carries no tangent-linear value, given a seed
  that is not \<open>None\<close>, \<open>prepare_evaluate_hessian\<close> returns \<open>None\<close> and leaves the block
  as it is; it raises nothing, whatever the cached adjoint solution.
\<close>

theorem prepare_evaluate_hessian_no_tlm:
  assumes "outputs blk = out # rest" and "tlm_value out = None"
    and "hessian_inputs = Some h # hs"
  shows "prepare_evaluate_hessian B blk inputs hessian_inputs adj_inputs relevant_dependencies
         = Inr (None, blk)"
  unfolding prepare_evaluate_hessian_def
  by (simp add: assms Let_def)

theorem prepare_evaluate_hessian_no_tlm_witness:
  "prepare_evaluate_hessian sym_backend (ex_linear_block (Some ex_seed) [ex_output None])
     [] [Some ex_hseed, None] [ex_seed] []
   = Inr (None, ex_linear_block (Some ex_seed) [ex_output None])"
  using prepare_evaluate_hessian_no_tlm
    [where B = sym_backend and blk = "ex_linear_block (Some ex_seed) [ex_output None]"
       and out = "ex_output None" and rest = "[]"
       and hessian_inputs = "[Some ex_hseed, None]" and h = ex_hseed and hs = "[None]"
       and inputs = "[]" and adj_inputs = "[ex_seed]" and relevant_dependencies = "[]"]
  by (simp add: ex_linear_block_def ex_output_def)

lemma tlm_step_snd_unknown:
  assumes "\<not> linear blk" and "bv_output bv = func blk"
  shows "snd (tlm_step B blk F_form st bv) = snd st"
  using assms
  by (cases st) (simp add: tlm_step_def Let_def split: option.splits)

text \<open>
  C5: in a block with a nonlinear residual, a dependency whose output is the unknown
  gives no contribution and no error in any pass: its adjoint component and its Hessian
  component are \<open>None\<close>, whatever was prepared; the loop of the tangent linear pass
  leaves the sum of the terms as it was; and so do the two loops of the second-order
  pass over the dependencies, the one for the right-hand side and the one for the cross
  terms.
\<close>

theorem unknown_dependency_no_contribution:
  assumes "\<not> linear blk" and "bv_output bv = func blk"
  shows "evaluate_adj_component B blk inputs adj_inputs bv idx prepared = Inr RNone
       \<and> evaluate_hessian_component B blk inputs hessian_inputs adj_inputs bv idx
           relevant_dependencies hprepared = Inr RNone
       \<and> snd (tlm_step B blk F_form st bv) = snd st
       \<and> soa_step B blk dFdu_form asol b_form bv = b_form
       \<and> hessian_step B blk dFdm_adj d2Fdm2 (i, bv) = d2Fdm2"
proof -
  have 1: "evaluate_adj_component B blk inputs adj_inputs bv idx prepared = Inr RNone"
    using assms by (simp add: evaluate_adj_component_def)
  have 2: "evaluate_hessian_component B blk inputs hessian_inputs adj_inputs bv idx
           relevant_dependencies hprepared = Inr RNone"
    using assms by (simp add: evaluate_hessian_component_def Let_def)
  have 3: "soa_step B blk dFdu_form asol b_form bv = b_form"
    using assms by (simp add: soa_step_def Let_def split: option.splits)
  have 4: "hessian_step B blk dFdm_adj d2Fdm2 (i, bv) = d2Fdm2"
    using assms by (simp add: hessian_step_def Let_def split: option.splits)
  show ?thesis using 1 2 3 4 tlm_step_snd_unknown[OF assms] by simp
qed

theorem unknown_dependency_no_contribution_witness:
  "evaluate_adj_component sym_backend (ex_block None [ex_output (Some ex_tlm)]) [] [ex_seed]
     (ex_output (Some ex_tlm)) 0 None = Inr RNone
   \<and> evaluate_hessian_component sym_backend (ex_block None [ex_output (Some ex_tlm)]) []
       [Some ex_hseed] [ex_seed] (ex_output (Some ex_tlm)) 0 [] None = Inr RNone
   \<and> snd (tlm_step sym_backend (ex_block None [ex_output (Some ex_tlm)]) ex_laplace
            ([], PyFloat 0) (ex_output (Some ex_tlm))) = PyFloat 0
   \<and> soa_step sym_backend (ex_block None [ex_output (Some ex_tlm)]) ex_laplace ex_seed
       ex_hseed (ex_output (Some ex_tlm)) = ex_hseed
   \<and> hessian_step sym_backend (ex_block None [ex_output (Some ex_tlm)]) ex_laplace None
       (0, ex_output (Some ex_tlm)) = None"
  using unknown_dependency_no_contribution
    [where B = sym_backend and blk = "ex_block None [ex_output (Some ex_tlm)]"
       and bv = "ex_output (Some ex_tlm)" and inputs = "[]" and adj_inputs = "[ex_seed]"
       and idx = 0 and prepared = None and hessian_inputs = "[Some ex_hseed]"
       and relevant_dependencies = "[]" and hprepared = None and F_form = ex_laplace
       and st = "([], PyFloat 0)" and dFdu_form = ex_laplace and asol = ex_seed
       and b_form = ex_hseed and dFdm_adj = ex_laplace and ?d2Fdm2.0 = None and i = 0]
  by (simp add: ex_block_def ex_output_def)

section \<open>Properties of the tangent linear pass\<close>

lemma tlm_step_skipped:
  assumes "cls B (bv_output bv) = ClsDirichletBC \<or> tlm_value bv = None
           \<or> (bv_output bv = func blk \<and> \<not> linear blk)"
  shows "tlm_step B blk F_form (bcs0, d0) bv =
         (bcs0 @ map (\<lambda>bv. case tlm_value bv of
                              None \<Rightarrow> create_bc_homogenize B (bv_output bv)
                            | Some t \<Rightarrow> t)
                   (filter (\<lambda>bv. cls B (bv_output bv) = ClsDirichletBC) [bv]), d0)"
  using assms
  by (auto simp: tlm_step_def Let_def split: option.splits)

lemma tlm_loop_skipped:
  assumes "\<forall>bv \<in> set deps. cls B (bv_output bv) = ClsDirichletBC \<or> tlm_value bv = None
           \<or> (bv_output bv = func blk \<and> \<not> linear blk)"
  shows "foldl (tlm_step B blk F_form) (bcs0, d0) deps =
         (bcs0 @ map (\<lambda>bv. case tlm_value bv of
                              None \<Rightarrow> create_bc_homogenize B (bv_output bv)
                            | Some t \<Rightarrow> t)
                   (filter (\<lambda>bv. cls B (bv_output bv) = ClsDirichletBC) deps), d0)"
  using assms
proof (induction deps arbitrary: bcs0)
  case Nil
  then show ?case by simp
next
  case (Cons bv deps)
  let ?f = "\<lambda>bv. case tlm_value bv of
                    None \<Rightarrow> create_bc_homogenize B (bv_output bv) | Some t \<Rightarrow> t"
  let ?p = "\<lambda>bv. cls B (bv_output bv) = ClsDirichletBC"
  have step: "tlm_step B blk F_form (bcs0, d0) bv = (bcs0 @ map ?f (filter ?p [bv]), d0)"
    using Cons.prems by (intro tlm_step_skipped) simp
  have "foldl (tlm_step B blk F_form) (bcs0 @ map ?f (filter ?p [bv]), d0) deps
        = ((bcs0 @ map ?f (filter ?p [bv])) @ map ?f (filter ?p deps), d0)"
    using Cons.prems by (intro Cons.IH) simp
  then show ?case
    by (simp add: step)
qed

text \<open>
  C7: when no dependency adds a term to the right-hand side of the tangent linear
  equation (each one is a boundary condition, carries no tangent-linear value, or is the
  unknown of a nonlinear block), the right-hand side is the form
  \<open>inner(Constant(zeros), v)*dx\<close> with \<open>v\<close> the first argument of the Jacobian form, and
  the tangent linear solve is performed with it: the result is the solution of the
  assembled Jacobian, with the boundary conditions of the tangent linear pass, against
  the assembled zero form, in a new function of the space of the output.
\<close>

theorem evaluate_tlm_component_zero_rhs:
  assumes "\<forall>bv \<in> set (dependencies blk).
             cls B (bv_output bv) = ClsDirichletBC \<or> tlm_value bv = None
             \<or> (bv_output bv = func blk \<and> \<not> linear blk)"
    and "idx < length (outputs blk)"
    and "arguments B (t_dFdu prep) = v # vs"
    and "bcs' = map (\<lambda>bv. case tlm_value bv of
                             None \<Rightarrow> create_bc_homogenize B (bv_output bv)
                           | Some t \<Rightarrow> t)
                 (filter (\<lambda>bv. cls B (bv_output bv) = ClsDirichletBC) (dependencies blk))"
  shows "evaluate_tlm_component B blk inputs tlm_inputs block_var idx (Some prep) =
         Inr (solve_assembled B
                (assemble_adjoint_value B (t_dFdu prep) [] (Some bcs'))
                (Function B (function_space B (bv_output (outputs blk ! idx))))
                (foldl (\<lambda>x bc. bc_apply B bc x)
                   (assemble_adjoint_value B
                      (expand_derivatives B (op_mul B (inner B (zero_Constant B v) v) (dx B)))
                      [] None)
                   bcs'))"
proof -
  have loop: "foldl (tlm_step B blk (t_form prep)) ([], PyFloat 0) (dependencies blk)
              = (bcs', PyFloat 0)"
    using tlm_loop_skipped[OF assms(1), of "t_form prep" "[]" "PyFloat 0"]
    by (simp add: assms(4))
  show ?thesis
    unfolding evaluate_tlm_component_def
    by (simp add: Let_def py_index_def assms(2) assms(3) loop zero_rhs_form_def
        assemble_and_solve_tlm_eq_def assembled_solve_def)
qed

theorem evaluate_tlm_component_zero_rhs_witness:
  "evaluate_tlm_component sym_backend (ex_block None [ex_output None]) [] []
     (sym_block_variable ex_u) 0
     (Some \<lparr>t_form = ex_laplace, t_dFdu = App ''derivative'' [ex_laplace, ex_u, ex_du]\<rparr>) =
   Inr (solve_assembled sym_backend
          (assemble_adjoint_value sym_backend (App ''derivative'' [ex_laplace, ex_u, ex_du]) []
             (Some [create_bc_homogenize sym_backend ex_bc]))
          (Function sym_backend (function_space sym_backend ex_u))
          (foldl (\<lambda>x bc. bc_apply sym_backend bc x)
             (assemble_adjoint_value sym_backend
                (expand_derivatives sym_backend
                   (op_mul sym_backend (inner sym_backend (zero_Constant sym_backend ex_v) ex_v)
                      (dx sym_backend)))
                [] None)
             [create_bc_homogenize sym_backend ex_bc]))"
proof -
  let ?blk = "ex_block None [ex_output None]"
  let ?prep = "\<lparr>t_form = ex_laplace, t_dFdu = App ''derivative'' [ex_laplace, ex_u, ex_du]\<rparr>"
  have 1: "\<forall>bv \<in> set (dependencies ?blk).
             cls sym_backend (bv_output bv) = ClsDirichletBC \<or> tlm_value bv = None
             \<or> (bv_output bv = func ?blk \<and> \<not> linear ?blk)"
    by (simp add: ex_block_def sym_block_variable_def)
  have 2: "0 < length (outputs ?blk)"
    by (simp add: ex_block_def)
  have 3: "arguments sym_backend (t_dFdu ?prep) = ex_v # [ex_du]"
    by (simp add: sym_backend_def ex_laplace_def ex_v_def ex_du_def ex_u_def)
  have 4: "[create_bc_homogenize sym_backend ex_bc] =
           map (\<lambda>bv. case tlm_value bv of
                        None \<Rightarrow> create_bc_homogenize sym_backend (bv_output bv)
                      | Some t \<Rightarrow> t)
             (filter (\<lambda>bv. cls sym_backend (bv_output bv) = ClsDirichletBC) (dependencies ?blk))"
    by (simp add: ex_block_def sym_block_variable_def sym_backend_def ex_u_def ex_bc_def
        ex_mesh_def)
  show ?thesis
    using evaluate_tlm_component_zero_rhs[OF 1 2 3 4, of "[]" "[]" "sym_block_variable ex_u"]
    by (simp add: ex_block_def ex_output_def)
qed

section \<open>Properties of the boundary part of the adjoint solutions\<close>

lemma should_compute_boundary_adjoint_iff:
  "should_compute_boundary_adjoint B rel
   \<longleftrightarrow> (\<exists>d \<in> set rel. cls B (bv_output (snd d)) = ClsDirichletBC)"
  by (induction rel) auto

lemma assemble_and_solve_adj_eq_bdy:
  assumes "assemble_and_solve_adj_eq B blk form dJdu compute_bdy = Inr (a, bdy)"
  shows "bdy = (if compute_bdy
                then Some (function_from_vector B (blk_function_space blk)
                             (op_sub B dJdu (assemble_adjoint_value B (action B form a) [] None)))
                else None)"
proof (cases "block_class blk")
  case GenericSolveBlock
  then have "assemble_and_solve_adj_eq_generic B blk form dJdu compute_bdy = Inr (a, bdy)"
    using assms by (simp add: assemble_and_solve_adj_eq_def)
  then show ?thesis
    unfolding assemble_and_solve_adj_eq_generic_def Let_def res_bind_Inr_iff
    by (auto simp: boundary_adjoint_def vec_copy_def)
next
  case SolveLinearSystemBlock
  then have "assemble_and_solve_adj_eq_linear_system B blk form dJdu compute_bdy = Inr (a, bdy)"
    using assms by (simp add: assemble_and_solve_adj_eq_def)
  then show ?thesis
    unfolding assemble_and_solve_adj_eq_linear_system_def Let_def res_bind_Inr_iff
    by (auto simp: boundary_adjoint_def vec_copy_def)
next
  case SolveVarFormBlock
  then have "assemble_and_solve_adj_eq_var_form B blk form dJdu compute_bdy = Inr (a, bdy)"
    using assms by (simp add: assemble_and_solve_adj_eq_def)
  then show ?thesis
    unfolding assemble_and_solve_adj_eq_var_form_def Let_def
    by (auto simp: boundary_adjoint_def vec_copy_def res_bind_Inr_iff split: prod.splits)
qed

lemma prepare_evaluate_adj_bdy:
  assumes "prepare_evaluate_adj B blk inputs adj_inputs rel = Inr (prep, blk')"
  shows "\<exists>out rest seed seeds.
           outputs blk = out # rest \<and> adj_inputs = seed # seeds \<and>
           adj_sol blk' = Some (p_adj_sol prep) \<and>
           p_adj_sol_bdy prep =
             (if (\<exists>d \<in> set rel. cls B (bv_output (snd d)) = ClsDirichletBC)
              then Some (function_from_vector B (blk_function_space blk)
                     (op_sub B seed
                        (assemble_adjoint_value B
                           (action B
                              (adjoint B (backend_derivative B (p_form prep) (saved_output out)
                                 (Some (TrialFunction B (function_space B (bv_output out))))))
                              (p_adj_sol prep)) [] None)))
              else None)"
proof -
  from assms obtain out where o: "py_index (outputs blk) 0 = Inr out"
    unfolding prepare_evaluate_adj_def res_bind_Inr_iff by blast
  then obtain rest where outs: "outputs blk = out # rest"
    by (cases "outputs blk") (auto simp: py_index_def)
  from assms obtain seed where s: "py_index adj_inputs 0 = Inr seed"
    unfolding prepare_evaluate_adj_def o res_bind_Inr Let_def res_bind_Inr_iff by blast
  then obtain seeds where seeds: "adj_inputs = seed # seeds"
    by (cases adj_inputs) (auto simp: py_index_def)
  from assms obtain F where F: "create_F_form B blk = Inr F"
    unfolding prepare_evaluate_adj_def o s res_bind_Inr Let_def res_bind_Inr_iff by blast
  let ?form = "adjoint B (backend_derivative B F (saved_output out)
                 (Some (TrialFunction B (function_space B (bv_output out)))))"
  let ?cb = "should_compute_boundary_adjoint B rel"
  from assms obtain a bdy where
    sol: "assemble_and_solve_adj_eq B blk ?form (vec_copy seed) ?cb = Inr (a, bdy)"
    unfolding prepare_evaluate_adj_def o s F res_bind_Inr Let_def res_bind_Inr_iff by fast
  have prep: "p_form prep = F" "p_adj_sol prep = a" "p_adj_sol_bdy prep = bdy"
    and blk': "adj_sol blk' = Some a"
    using assms
    unfolding prepare_evaluate_adj_def o s F res_bind_Inr Let_def sol
    by (auto simp: call_cb_def split: option.splits if_splits)
  show ?thesis
    using assemble_and_solve_adj_eq_bdy[OF sol]
    by (simp add: outs seeds prep blk' should_compute_boundary_adjoint_iff vec_copy_def)
qed

lemma call_cb_fields [simp]:
  "adj_sol (call_cb cb x blk) = adj_sol blk"
  "blk_function_space (call_cb cb x blk) = blk_function_space blk"
  by (simp_all add: call_cb_def)

lemma prepare_evaluate_hessian_bdy:
  assumes "prepare_evaluate_hessian B blk inputs hessian_inputs adj_inputs rel
           = Inr (Some hp, blk')"
  shows "\<exists>out rest seed seeds tlm_output dFdu_form.
           outputs blk = out # rest \<and> hessian_inputs = Some seed # seeds \<and>
           tlm_value out = Some tlm_output \<and>
           adj_sol blk = Some (h_adj_sol hp) \<and>
           dFdu_form = backend_derivative B (h_form hp) (saved_output out) None \<and>
           h_adj_sol2_bdy hp =
             (if (\<exists>d \<in> set rel. cls B (bv_output (snd d)) = ClsDirichletBC)
              then Some (function_from_vector B (blk_function_space blk)
                     (op_sub B
                        (assemble_soa_eq_rhs B blk dFdu_form (h_adj_sol hp) seed
                           (expand_derivatives B
                              (backend_derivative B dFdu_form (saved_output out)
                                 (Some tlm_output))))
                        (assemble_adjoint_value B
                           (action B (adjoint B dFdu_form) (h_adj_sol2 hp)) [] None)))
              else None)"
proof -
  from assms obtain out where o: "py_index (outputs blk) 0 = Inr out"
    unfolding prepare_evaluate_hessian_def res_bind_Inr_iff by blast
  then obtain rest where outs: "outputs blk = out # rest"
    by (cases "outputs blk") (auto simp: py_index_def)
  from assms obtain hi where h: "py_index hessian_inputs 0 = Inr hi"
    unfolding prepare_evaluate_hessian_def o res_bind_Inr res_bind_Inr_iff by blast
  from assms obtain seed where hi: "hi = Some seed"
    unfolding prepare_evaluate_hessian_def o h res_bind_Inr Let_def
    by (cases hi) auto
  obtain seeds where seeds: "hessian_inputs = Some seed # seeds"
    using h hi by (cases hessian_inputs) (auto simp: py_index_def)
  from assms obtain t where t: "tlm_value out = Some t"
    unfolding prepare_evaluate_hessian_def o h hi res_bind_Inr Let_def
    by (cases "tlm_value out") auto
  from assms obtain F where F: "create_F_form B blk = Inr F"
    unfolding prepare_evaluate_hessian_def o h hi res_bind_Inr Let_def
    by (cases "create_F_form B blk") (auto simp: t)
  from assms obtain a where a: "adj_sol blk = Some a"
    unfolding prepare_evaluate_hessian_def o h hi res_bind_Inr Let_def
    by (cases "adj_sol blk") (auto simp: t F)
  let ?dF = "backend_derivative B F (saved_output out) None"
  let ?d2 = "expand_derivatives B (backend_derivative B ?dF (saved_output out) (Some t))"
  let ?cb = "should_compute_boundary_adjoint B rel"
  let ?b = "assemble_soa_eq_rhs B blk ?dF a seed ?d2"
  have soa: "assemble_and_solve_soa_eq B blk ?dF a seed ?d2 ?cb
             = Inr ((h_adj_sol2 hp, h_adj_sol2_bdy hp), blk')
             \<and> h_form hp = F \<and> h_adj_sol hp = a"
    using assms
    unfolding prepare_evaluate_hessian_def o h hi res_bind_Inr Let_def
    by (auto simp: t F a res_bind_Inr_iff)
  then obtain x where
    sol: "assemble_and_solve_adj_eq B blk (adjoint B ?dF) ?b ?cb
          = Inr (h_adj_sol2 hp, h_adj_sol2_bdy hp)"
    unfolding assemble_and_solve_soa_eq_def Let_def res_bind_Inr_iff
    by (auto split: prod.splits)
  show ?thesis
    using assemble_and_solve_adj_eq_bdy[OF sol] soa
    by (simp add: outs seeds t a should_compute_boundary_adjoint_iff)
qed

lemma bc_adj_component:
  assumes "cls B (bv_output bv) = ClsDirichletBC" and "bv_output bv \<noteq> func blk"
  shows "evaluate_adj_component B blk inputs adj_inputs bv idx (Some prep) =
           Inr (RList [create_bc_value B (bv_output bv)
                         (extract_subfunction B (p_adj_sol_bdy prep)
                            (function_space B (bv_output bv)))])"
  using assms by (simp add: evaluate_adj_component_def Let_def)

lemma bc_hessian_component:
  assumes "cls B (bv_output bv) = ClsDirichletBC" and "bv_output bv \<noteq> func blk"
    and "outputs blk \<noteq> []"
  shows "evaluate_hessian_component B blk inputs hessian_inputs adj_inputs bv idx rel (Some hp) =
           Inr (RList [create_bc_value B (bv_output bv)
                         (extract_subfunction B (h_adj_sol2_bdy hp)
                            (function_space B (bv_output bv)))])"
proof -
  obtain out rest where "outputs blk = out # rest"
    using assms(3) by (cases "outputs blk") auto
  then show ?thesis
    using assms(1,2) by (simp add: evaluate_hessian_component_def Let_def)
qed

text \<open>
  C6: for a dependency that is a boundary condition, the adjoint component and the
  Hessian component are a list of one boundary condition, made from the dependency with
  the boundary part of the adjoint (second adjoint) solution, restricted to the function
  space of the boundary condition, as its value. The boundary part that the adjoint pass
  prepares is the seed as it was handed in, minus the assembled action of the transposed
  Jacobian on the adjoint solution, as a function of the space of the block; the boundary
  part that the second-order pass prepares is formed the same way from the right-hand
  side of the second-order equation and the second adjoint solution. Each is computed
  exactly when one of the relevant dependencies is a boundary condition, and is \<open>None\<close>
  otherwise.
\<close>

theorem boundary_constraint_dependency:
  "(cls B (bv_output bv) = ClsDirichletBC \<and> bv_output bv \<noteq> func blk \<longrightarrow>
      evaluate_adj_component B blk inputs adj_inputs bv idx (Some prep) =
        Inr (RList [create_bc_value B (bv_output bv)
                      (extract_subfunction B (p_adj_sol_bdy prep)
                         (function_space B (bv_output bv)))]))
   \<and> (cls B (bv_output bv) = ClsDirichletBC \<and> bv_output bv \<noteq> func blk \<and> outputs blk \<noteq> [] \<longrightarrow>
      evaluate_hessian_component B blk inputs hessian_inputs adj_inputs bv idx rel (Some hp) =
        Inr (RList [create_bc_value B (bv_output bv)
                      (extract_subfunction B (h_adj_sol2_bdy hp)
                         (function_space B (bv_output bv)))]))
   \<and> (prepare_evaluate_adj B blk inputs adj_inputs rel = Inr (prep', blk') \<longrightarrow>
      p_adj_sol_bdy prep' =
        (if (\<exists>d \<in> set rel. cls B (bv_output (snd d)) = ClsDirichletBC)
         then Some (function_from_vector B (blk_function_space blk)
                (op_sub B (adj_inputs ! 0)
                   (assemble_adjoint_value B
                      (action B
                         (adjoint B
                            (backend_derivative B (p_form prep') (saved_output (outputs blk ! 0))
                               (Some (TrialFunction B
                                        (function_space B (bv_output (outputs blk ! 0)))))))
                         (p_adj_sol prep')) [] None)))
         else None))
   \<and> (prepare_evaluate_hessian B blk inputs hessian_inputs adj_inputs rel = Inr (Some hp', blk'')
       \<and> hessian_inputs ! 0 = Some seed \<longrightarrow>
      h_adj_sol2_bdy hp' =
        (let dFdu_form = backend_derivative B (h_form hp') (saved_output (outputs blk ! 0)) None
         in if (\<exists>d \<in> set rel. cls B (bv_output (snd d)) = ClsDirichletBC)
            then Some (function_from_vector B (blk_function_space blk)
                   (op_sub B
                      (assemble_soa_eq_rhs B blk dFdu_form (h_adj_sol hp') seed
                         (expand_derivatives B
                            (backend_derivative B dFdu_form (saved_output (outputs blk ! 0))
                               (tlm_value (outputs blk ! 0)))))
                      (assemble_adjoint_value B
                         (action B (adjoint B dFdu_form) (h_adj_sol2 hp')) [] None)))
            else None))"
proof (intro conjI impI)
  assume "cls B (bv_output bv) = ClsDirichletBC \<and> bv_output bv \<noteq> func blk"
  then show "evaluate_adj_component B blk inputs adj_inputs bv idx (Some prep) =
        Inr (RList [create_bc_value B (bv_output bv)
                      (extract_subfunction B (p_adj_sol_bdy prep)
                         (function_space B (bv_output bv)))])"
    using bc_adj_component by blast
next
  assume "cls B (bv_output bv) = ClsDirichletBC \<and> bv_output bv \<noteq> func blk \<and> outputs blk \<noteq> []"
  then show "evaluate_hessian_component B blk inputs hessian_inputs adj_inputs bv idx rel (Some hp) =
        Inr (RList [create_bc_value B (bv_output bv)
                      (extract_subfunction B (h_adj_sol2_bdy hp)
                         (function_space B (bv_output bv)))])"
    using bc_hessian_component by blast
next
  assume "prepare_evaluate_adj B blk inputs adj_inputs rel = Inr (prep', blk')"
  from prepare_evaluate_adj_bdy[OF this]
  show "p_adj_sol_bdy prep' =
        (if (\<exists>d \<in> set rel. cls B (bv_output (snd d)) = ClsDirichletBC)
         then Some (function_from_vector B (blk_function_space blk)
                (op_sub B (adj_inputs ! 0)
                   (assemble_adjoint_value B
                      (action B
                         (adjoint B
                            (backend_derivative B (p_form prep') (saved_output (outputs blk ! 0))
                               (Some (TrialFunction B
                                        (function_space B (bv_output (outputs blk ! 0)))))))
                         (p_adj_sol prep')) [] None)))
         else None)"
    by (elim exE conjE) (simp only: nth_Cons_0)
next
  assume a: "prepare_evaluate_hessian B blk inputs hessian_inputs adj_inputs rel
               = Inr (Some hp', blk'')
             \<and> hessian_inputs ! 0 = Some seed"
  then have "prepare_evaluate_hessian B blk inputs hessian_inputs adj_inputs rel
               = Inr (Some hp', blk'')" by simp
  from prepare_evaluate_hessian_bdy[OF this] a
  show "h_adj_sol2_bdy hp' =
        (let dFdu_form = backend_derivative B (h_form hp') (saved_output (outputs blk ! 0)) None
         in if (\<exists>d \<in> set rel. cls B (bv_output (snd d)) = ClsDirichletBC)
            then Some (function_from_vector B (blk_function_space blk)
                   (op_sub B
                      (assemble_soa_eq_rhs B blk dFdu_form (h_adj_sol hp') seed
                         (expand_derivatives B
                            (backend_derivative B dFdu_form (saved_output (outputs blk ! 0))
                               (tlm_value (outputs blk ! 0)))))
                      (assemble_adjoint_value B
                         (action B (adjoint B dFdu_form) (h_adj_sol2 hp')) [] None)))
            else None)"
    by (elim exE conjE) (simp only: nth_Cons_0 Let_def option.inject)
qed


theorem boundary_constraint_dependency_witness:
  "evaluate_adj_component sym_backend (ex_block (Some ex_seed) [ex_output (Some ex_tlm)])
     [] [ex_seed] (sym_block_variable ex_bc) 0
     (Some \<lparr>p_form = ex_laplace, p_adj_sol = ex_seed, p_adj_sol_bdy = Some ex_hseed\<rparr>) =
     Inr (RList [create_bc_value sym_backend ex_bc
                   (extract_subfunction sym_backend (Some ex_hseed)
                      (function_space sym_backend ex_bc))])
   \<and> evaluate_hessian_component sym_backend (ex_block (Some ex_seed) [ex_output (Some ex_tlm)])
       [] [Some ex_hseed] [ex_seed] (sym_block_variable ex_bc) 0
       [(0, sym_block_variable ex_bc)]
       (Some \<lparr>h_adj_sol2 = ex_seed, h_adj_sol2_bdy = Some ex_hseed, h_form = ex_laplace,
               h_adj_sol = ex_seed\<rparr>) =
     Inr (RList [create_bc_value sym_backend ex_bc
                   (extract_subfunction sym_backend (Some ex_hseed)
                      (function_space sym_backend ex_bc))])
   \<and> (case prepare_evaluate_adj sym_backend
              (ex_block (Some ex_seed) [ex_output (Some ex_tlm)]) [] [ex_seed]
              [(0, sym_block_variable ex_bc)] of
         Inl e \<Rightarrow> False
       | Inr (p, b) \<Rightarrow>
           p_adj_sol_bdy p =
             Some (function_from_vector sym_backend (App ''function_space'' [ex_u])
                (op_sub sym_backend ex_seed
                   (assemble_adjoint_value sym_backend
                      (action sym_backend
                         (adjoint sym_backend
                            (backend_derivative sym_backend (p_form p) (App ''checkpoint'' [ex_u])
                               (Some (TrialFunction sym_backend
                                        (function_space sym_backend ex_u)))))
                         (p_adj_sol p)) [] None))))
   \<and> (case prepare_evaluate_hessian sym_backend
              (ex_block (Some ex_seed) [ex_output (Some ex_tlm)]) [] [Some ex_hseed] [ex_seed]
              [(0, sym_block_variable ex_u)] of
         Inr (Some hp, b) \<Rightarrow> h_adj_sol2_bdy hp = None
       | _ \<Rightarrow> False)"
proof -
  let ?blk = "ex_block (Some ex_seed) [ex_output (Some ex_tlm)]"
  let ?bc = "sym_block_variable ex_bc"
  have bc: "cls sym_backend ex_bc = ClsDirichletBC" "cls sym_backend ex_u = ClsFunction"
    by (simp_all add: sym_backend_def ex_bc_def ex_u_def)
  have ne: "ex_bc \<noteq> ex_u"
    by (simp add: ex_bc_def ex_u_def)
  have "case prepare_evaluate_adj sym_backend ?blk [] [ex_seed] [(0, ?bc)] of
          Inl e \<Rightarrow> False | Inr x \<Rightarrow> True"
    by code_simp
  then obtain p b where
    pa: "prepare_evaluate_adj sym_backend ?blk [] [ex_seed] [(0, ?bc)] = Inr (p, b)"
    by (cases "prepare_evaluate_adj sym_backend ?blk [] [ex_seed] [(0, ?bc)]") auto
  have "case prepare_evaluate_hessian sym_backend ?blk [] [Some ex_hseed] [ex_seed]
               [(0, sym_block_variable ex_u)] of
          Inr (Some hp, b) \<Rightarrow> True | _ \<Rightarrow> False"
    by code_simp
  then obtain hp b2 where
    ph: "prepare_evaluate_hessian sym_backend ?blk [] [Some ex_hseed] [ex_seed]
           [(0, sym_block_variable ex_u)] = Inr (Some hp, b2)"
    by (auto split: sum.splits option.splits)
  have 12: "evaluate_adj_component sym_backend ?blk [] [ex_seed] ?bc 0
     (Some \<lparr>p_form = ex_laplace, p_adj_sol = ex_seed, p_adj_sol_bdy = Some ex_hseed\<rparr>) =
     Inr (RList [create_bc_value sym_backend ex_bc
                   (extract_subfunction sym_backend (Some ex_hseed)
                      (function_space sym_backend ex_bc))])
   \<and> evaluate_hessian_component sym_backend ?blk [] [Some ex_hseed] [ex_seed] ?bc 0
       [(0, ?bc)]
       (Some \<lparr>h_adj_sol2 = ex_seed, h_adj_sol2_bdy = Some ex_hseed, h_form = ex_laplace,
               h_adj_sol = ex_seed\<rparr>) =
     Inr (RList [create_bc_value sym_backend ex_bc
                   (extract_subfunction sym_backend (Some ex_hseed)
                      (function_space sym_backend ex_bc))])"
    using boundary_constraint_dependency
      [where B = sym_backend and blk = ?blk and bv = ?bc and inputs = "[]"
         and adj_inputs = "[ex_seed]" and idx = 0 and hessian_inputs = "[Some ex_hseed]"
         and rel = "[(0, ?bc)]"
         and prep = "\<lparr>p_form = ex_laplace, p_adj_sol = ex_seed, p_adj_sol_bdy = Some ex_hseed\<rparr>"
         and hp = "\<lparr>h_adj_sol2 = ex_seed, h_adj_sol2_bdy = Some ex_hseed, h_form = ex_laplace,
               h_adj_sol = ex_seed\<rparr>"]
    by (simp add: bc ne ex_block_def sym_block_variable_def)
  have 3: "p_adj_sol_bdy p =
             Some (function_from_vector sym_backend (App ''function_space'' [ex_u])
                (op_sub sym_backend ex_seed
                   (assemble_adjoint_value sym_backend
                      (action sym_backend
                         (adjoint sym_backend
                            (backend_derivative sym_backend (p_form p) (App ''checkpoint'' [ex_u])
                               (Some (TrialFunction sym_backend
                                        (function_space sym_backend ex_u)))))
                         (p_adj_sol p)) [] None)))"
    using boundary_constraint_dependency
      [where B = sym_backend and blk = ?blk and inputs = "[]"
         and adj_inputs = "[ex_seed]" and rel = "[(0, ?bc)]" and prep' = p and blk' = b] pa
    by (simp add: bc ex_block_def ex_output_def sym_block_variable_def)
  have 4: "h_adj_sol2_bdy hp = None"
    using boundary_constraint_dependency
      [where B = sym_backend and blk = ?blk and inputs = "[]"
         and adj_inputs = "[ex_seed]" and hessian_inputs = "[Some ex_hseed]"
         and rel = "[(0, sym_block_variable ex_u)]" and hp' = hp and blk'' = b2
         and seed = ex_hseed] ph
    by (simp add: bc sym_block_variable_def)
  show ?thesis
    using 12 3 4 by (simp add: pa ph)
qed

section \<open>Properties of the linear flag\<close>

text \<open>
  C8, as the claim states it, fails in both directions. The block recorded for
  \<open>solve(inner(grad(u), grad(v))*dx == 0, u, bc)\<close> is not flagged linear, though both
  sides are linear in \<open>u\<close> (the left-hand side has degree one, the right-hand side is a
  number); the block recorded for \<open>solve(u*u*v*dx == f*v*dx, u, bc)\<close> is flagged linear,
  though its left-hand side has degree two in \<open>u\<close>.
\<close>

theorem linear_flag_not_expression_linearity:
  "SolveVarFormBlock_init sym_backend std_enlisting ex_args [] = Inr (ex_block None [])
   \<and> \<not> linear (ex_block None [])
   \<and> spec_expression_linear ex_u (PyObj (lhs (ex_block None [])))
   \<and> spec_expression_linear ex_u (rhs (ex_block None []))
   \<and> map_sum id linear
        (SolveVarFormBlock_init sym_backend std_enlisting
           [PyObj (App ''equation'' [ex_square, ex_source]), PyObj ex_u, PyObj ex_bc] [])
       = Inr True
   \<and> \<not> spec_expression_linear ex_u (PyObj ex_square)"
  by code_simp

text \<open>
  C8, amended: the flag \<open>linear\<close> of a constructed block is true if and only if the
  left-hand side and the right-hand side handed to the constructor are both instances of
  the class of forms.
\<close>

theorem linear_flag_iff_forms:
  assumes "GenericSolveBlock_init B L klass (lhs_v # rhs_v # func_v # bcs_v # extra) kwargs
           = Inr blk"
  shows "linear blk \<longleftrightarrow> isinstance B lhs_v ClsForm \<and> isinstance B rhs_v ClsForm"
  using GenericSolveBlock_init_fields[OF assms] by simp

theorem linear_flag_iff_forms_witness:
  "GenericSolveBlock_init sym_backend std_enlisting SolveVarFormBlock
     [PyObj ex_bilinear, PyObj ex_source, PyObj ex_u, PyObj ex_bc] []
     = Inr (ex_linear_block None [])
   \<and> (linear (ex_linear_block None []) \<longleftrightarrow>
        isinstance sym_backend (PyObj ex_bilinear) ClsForm
        \<and> isinstance sym_backend (PyObj ex_source) ClsForm)"
proof -
  have c: "GenericSolveBlock_init sym_backend std_enlisting SolveVarFormBlock
             [PyObj ex_bilinear, PyObj ex_source, PyObj ex_u, PyObj ex_bc] []
           = Inr (ex_linear_block None [])"
    by code_simp
  show ?thesis
    using linear_flag_iff_forms[OF c] c by simp
qed

section \<open>Properties of the overloaded solve\<close>

lemma SolveVarFormBlock_init_outputs:
  assumes "SolveVarFormBlock_init B L ps kw = Inr blk"
  shows "outputs blk = []"
proof -
  from assms obtain vs args kw0 where
    rest: "(case vs of
              [equation, func_v, bcs_v] \<Rightarrow>
                res_bind (py_getattr B equation ''lhs'') (\<lambda>lhs_v.
                res_bind (py_getattr B equation ''rhs'') (\<lambda>rhs_v.
                  GenericSolveBlock_init B L SolveVarFormBlock
                    ([lhs_v, rhs_v, func_v, bcs_v] @ args) kw0))
            | _ \<Rightarrow> Inl TypeError) = Inr blk"
    unfolding SolveVarFormBlock_init_def res_bind_Inr_iff by (auto split: prod.splits)
  then obtain e f b where vs: "vs = [e, f, b]"
    by (auto split: list.splits)
  from rest obtain lhs_v rhs_v where
    "GenericSolveBlock_init B L SolveVarFormBlock (lhs_v # rhs_v # f # b # args) kw0 = Inr blk"
    unfolding vs by (auto simp: res_bind_Inr_iff)
  then show ?thesis using GenericSolveBlock_init_fields by blast
qed

lemma SolveLinearSystemBlock_init_outputs:
  assumes "SolveLinearSystemBlock_init B L ps kw = Inr blk"
  shows "outputs blk = []"
proof -
  from assms obtain vs args kw0 where
    rest: "(case vs of
       [A, u, b] \<Rightarrow>
         res_bind (py_getattr B A ''form'') (\<lambda>lhs_v.
         res_bind (py_getattr B u ''function'') (\<lambda>func_v.
         res_bind (py_getattr B b ''form'') (\<lambda>rhs_v.
         res_bind (if py_hasattr B A ''bcs'' then py_getattr B A ''bcs'' else Inr (PySeq []))
           (\<lambda>bcs_v.
         res_bind (GenericSolveBlock_init B L SolveLinearSystemBlock
                     ([lhs_v, rhs_v, func_v, bcs_v] @ args) kw0) (\<lambda>blk.
         res_bind (if py_hasattr B A ''ident_zeros_tol'' then py_getattr B A ''ident_zeros_tol''
                   else Inr PyNone) (\<lambda>tol.
         res_bind (if py_hasattr B A ''assemble_system'' then py_getattr B A ''assemble_system''
                   else Inr (PyBool False)) (\<lambda>asys.
           Inr (blk\<lparr>ident_zeros_tol := tol, blk_assemble_system := py_truthy asys\<rparr>))))))))
     | _ \<Rightarrow> Inl TypeError) = Inr blk"
    unfolding SolveLinearSystemBlock_init_def res_bind_Inr_iff by (auto split: prod.splits)
  then obtain A u b where vs: "vs = [A, u, b]"
    by (auto split: list.splits)
  from rest obtain lhs_v rhs_v func_v bcs_v blk0 tol asys where
    g: "GenericSolveBlock_init B L SolveLinearSystemBlock
          (lhs_v # rhs_v # func_v # bcs_v # args) kw0 = Inr blk0"
    and blk: "blk = blk0\<lparr>ident_zeros_tol := tol, blk_assemble_system := asys\<rparr>"
    unfolding vs list.case res_bind_Inr_iff by auto
  show ?thesis using GenericSolveBlock_init_fields[OF g] blk by simp
qed

lemma construct_block_outputs:
  assumes "construct_block B L k args kw = Inr blk"
  shows "outputs blk = []"
proof (cases k)
  case GenericSolveBlock
  then have g: "GenericSolveBlock_init B L GenericSolveBlock args kw = Inr blk"
    using assms by (simp add: construct_block_def)
  then obtain r where r: "bind_params [(''lhs'', None), (''rhs'', None), (''func'', None),
       (''bcs'', None)] args kw = Inr r"
    unfolding GenericSolveBlock_init_def res_bind_Inr_iff by blast
  obtain vs extra kw0 where rr: "r = (vs, extra, kw0)" by (cases r)
  from g obtain a b c d where vs: "vs = [a, b, c, d]"
    unfolding GenericSolveBlock_init_def r rr res_bind_Inr prod.case
    by (auto split: list.splits)
  from g have "\<exists>func_o bcs_l lhs_o cb1 cb2 cb3 cb4 kw4 kw5.
      init_solver_parameters
        (register_dependencies B (fresh_block B GenericSolveBlock cb1 cb2 cb3 cb4 lhs_o b func_o bcs_l))
        extra kw4 = Inr (blk, kw5)"
    unfolding GenericSolveBlock_init_def r rr vs res_bind_Inr prod.case list.case
    by (auto simp: res_bind_Inr_iff split: prod.splits) blast
  then obtain func_o bcs_l lhs_o cb1 cb2 cb3 cb4 kw4 kw5 where
    init: "init_solver_parameters
        (register_dependencies B (fresh_block B GenericSolveBlock cb1 cb2 cb3 cb4 lhs_o b func_o bcs_l))
        extra kw4 = Inr (blk, kw5)" by blast
  show ?thesis
    using init_solver_parameters_fields[OF init]
    by (simp add: register_dependencies_fields fresh_block_fields)
next
  case SolveLinearSystemBlock
  then show ?thesis using assms SolveLinearSystemBlock_init_outputs
    by (simp add: construct_block_def)
next
  case SolveVarFormBlock
  then show ?thesis using assms SolveVarFormBlock_init_outputs
    by (simp add: construct_block_def)
qed

lemma solve_not_annotating:
  assumes "annotate_tape B kwargs = (False, kw1)"
  shows "solve B L args kwargs w =
         (Inr (backend_solve B args kw1), w\<lparr>solve_calls := solve_calls w @ [(args, kw1)]\<rparr>)"
  using assms by (simp add: solve_def Let_def)

lemma solve_annotating:
  assumes ann: "annotate_tape B kwargs = (True, kw1)"
    and pop: "pop_kwargs B pop_kwargs_keys kw1 = (sb, kw2)"
    and ret: "solve B L args kwargs w = (Inr out, w')"
  shows "\<exists>block bv. tape w' = tape w @ [block] \<and> outputs block = [bv]
           \<and> created_block_variables w' = created_block_variables w @ [bv]
           \<and> solve_calls w' = solve_calls w @ [(args, kw2)]
           \<and> out = backend_solve B args kw2"
proof -
  obtain a0 where a0: "py_index args 0 = Inr a0"
    using ret unfolding solve_def ann by (cases "py_index args 0") auto
  let ?k = "if \<not> isinstance B a0 ClsEquation then SolveLinearSystemBlock else SolveVarFormBlock"
  obtain blk0 where c: "construct_block B L ?k args (dict_update sb kw2) = Inr blk0"
    using ret unfolding solve_def ann
    by (cases "construct_block B L ?k args (dict_update sb kw2)") (auto simp: a0 pop Let_def)
  obtain target where t: "res_bind (py_index args 1) (output_target B) = Inr target"
    using ret unfolding solve_def ann
    by (cases "res_bind (py_index args 1) (output_target B)") (auto simp: a0 pop c Let_def)
  let ?bv = "create_block_variable B target"
  have w': "w' = w\<lparr>tape := tape w @ [add_output ?bv blk0],
                   solve_calls := solve_calls w @ [(args, kw2)],
                   created_block_variables := created_block_variables w @ [?bv]\<rparr>"
    and out: "out = backend_solve B args kw2"
    using ret unfolding solve_def ann
    by (auto simp: a0 pop c t Let_def add_block_def simp del: One_nat_def)
  have "outputs (add_output ?bv blk0) = [?bv]"
    using construct_block_outputs[OF c] by (simp add: add_output_def)
  then show ?thesis using w' out by auto
qed

text \<open>
  C10, as the claim states it, fails: the backend is not called with the keyword
  arguments of the caller. With the callback keyword \<open>adj_cb\<close> (annotation enabled) and
  with \<open>annotate=False\<close>, the one call of \<open>backend.solve\<close> gets the positional arguments
  and an empty dictionary.
\<close>

theorem solve_passes_remaining_kwargs:
  "solve_calls (snd (solve sym_backend std_enlisting ex_args [(''adj_cb'', PyStr ''cb'')]
                       ex_world)) = [(ex_args, [])]
   \<and> solve_calls (snd (solve sym_backend std_enlisting ex_args [(''annotate'', PyBool False)]
                         ex_world)) = [(ex_args, [])]"
  by code_simp

text \<open>
  C10, amended: a call of \<open>solve\<close> that returns has called \<open>backend.solve\<close> exactly once
  more, with the positional arguments of the caller and the keyword arguments that
  \<open>annotate_tape\<close> and, when annotation is enabled, \<open>pop_kwargs\<close> have left, and returns
  what that call returned. With annotation disabled nothing else changes: the tape and the
  block variables made are as before. With annotation enabled the tape is longer by one
  block, one block variable has been made, and it is the one output of that block.
\<close>

theorem solve_frame:
  "(annotate_tape B kwargs = (False, kw1) \<longrightarrow>
      solve B L args kwargs w =
        (Inr (backend_solve B args kw1), w\<lparr>solve_calls := solve_calls w @ [(args, kw1)]\<rparr>))
   \<and> (annotate_tape B kwargs = (True, kw1) \<and> pop_kwargs B pop_kwargs_keys kw1 = (sb, kw2)
       \<and> solve B L args kwargs w = (Inr out, w') \<longrightarrow>
      (\<exists>block bv. tape w' = tape w @ [block] \<and> outputs block = [bv]
         \<and> created_block_variables w' = created_block_variables w @ [bv]
         \<and> solve_calls w' = solve_calls w @ [(args, kw2)]
         \<and> out = backend_solve B args kw2))"
  using solve_not_annotating[of B kwargs kw1 L args w]
    solve_annotating[of B kwargs kw1 sb kw2 L args w out w']
  by blast

theorem solve_frame_witness:
  "solve sym_backend std_enlisting ex_args
     [(''annotate'', PyBool False), (''solver_parameters'', PyDict [])] ex_world =
     (Inr (backend_solve sym_backend ex_args [(''solver_parameters'', PyDict [])]),
      ex_world\<lparr>solve_calls := [(ex_args, [(''solver_parameters'', PyDict [])])]\<rparr>)
   \<and> (\<exists>block bv.
         tape (snd (solve sym_backend std_enlisting ex_linear_args
                      [(''adj_cb'', PyStr ''cb''), (''solver_parameters'', PyDict [])] ex_world))
           = [block]
         \<and> outputs block = [bv]
         \<and> created_block_variables
             (snd (solve sym_backend std_enlisting ex_linear_args
                     [(''adj_cb'', PyStr ''cb''), (''solver_parameters'', PyDict [])] ex_world))
           = [bv]
         \<and> solve_calls
             (snd (solve sym_backend std_enlisting ex_linear_args
                     [(''adj_cb'', PyStr ''cb''), (''solver_parameters'', PyDict [])] ex_world))
           = [(ex_linear_args, [(''solver_parameters'', PyDict [])])]
         \<and> fst (solve sym_backend std_enlisting ex_linear_args
                   [(''adj_cb'', PyStr ''cb''), (''solver_parameters'', PyDict [])] ex_world)
           = Inr (backend_solve sym_backend ex_linear_args [(''solver_parameters'', PyDict [])]))"
proof -
  have a0: "annotate_tape sym_backend
              [(''annotate'', PyBool False), (''solver_parameters'', PyDict [])]
            = (False, [(''solver_parameters'', PyDict [])])"
    by (simp add: sym_backend_def sym_annotate_tape_def dict_pop_def)
  have a1: "annotate_tape sym_backend
              [(''adj_cb'', PyStr ''cb''), (''solver_parameters'', PyDict [])]
            = (True, [(''adj_cb'', PyStr ''cb''), (''solver_parameters'', PyDict [])])"
    by (simp add: sym_backend_def sym_annotate_tape_def dict_pop_def)
  have p1: "pop_kwargs sym_backend pop_kwargs_keys
              [(''adj_cb'', PyStr ''cb''), (''solver_parameters'', PyDict [])]
            = ([(''adj_cb'', PyStr ''cb'')], [(''solver_parameters'', PyDict [])])"
    by (simp add: sym_backend_def sym_pop_kwargs_def pop_kwargs_keys_def)
  have "case solve sym_backend std_enlisting ex_linear_args
               [(''adj_cb'', PyStr ''cb''), (''solver_parameters'', PyDict [])] ex_world of
          (Inr out, w') \<Rightarrow> True | _ \<Rightarrow> False"
    by code_simp
  then obtain out w' where
    r: "solve sym_backend std_enlisting ex_linear_args
          [(''adj_cb'', PyStr ''cb''), (''solver_parameters'', PyDict [])] ex_world
        = (Inr out, w')"
    by (auto split: prod.splits sum.splits)
  have 1: "solve sym_backend std_enlisting ex_args
             [(''annotate'', PyBool False), (''solver_parameters'', PyDict [])] ex_world =
     (Inr (backend_solve sym_backend ex_args [(''solver_parameters'', PyDict [])]),
      ex_world\<lparr>solve_calls := [(ex_args, [(''solver_parameters'', PyDict [])])]\<rparr>)"
    using solve_frame[where B = sym_backend
        and kwargs = "[(''annotate'', PyBool False), (''solver_parameters'', PyDict [])]"
        and ?kw1.0 = "[(''solver_parameters'', PyDict [])]"
        and L = std_enlisting and args = ex_args and w = ex_world] a0
    by (simp add: ex_world_def)
  have 2: "\<exists>block bv. tape w' = tape ex_world @ [block] \<and> outputs block = [bv]
         \<and> created_block_variables w' = created_block_variables ex_world @ [bv]
         \<and> solve_calls w' = solve_calls ex_world
               @ [(ex_linear_args, [(''solver_parameters'', PyDict [])])]
         \<and> out = backend_solve sym_backend ex_linear_args [(''solver_parameters'', PyDict [])]"
    using solve_frame[where B = sym_backend
        and kwargs = "[(''adj_cb'', PyStr ''cb''), (''solver_parameters'', PyDict [])]"
        and ?kw1.0 = "[(''adj_cb'', PyStr ''cb''), (''solver_parameters'', PyDict [])]"
        and sb = "[(''adj_cb'', PyStr ''cb'')]"
        and ?kw2.0 = "[(''solver_parameters'', PyDict [])]"
        and L = std_enlisting and args = ex_linear_args and w = ex_world
        and out = out and w' = w'] a1 p1 r
    by blast
  then have 3: "\<exists>block bv. tape w' = [block] \<and> outputs block = [bv]
         \<and> created_block_variables w' = [bv]
         \<and> solve_calls w' = [(ex_linear_args, [(''solver_parameters'', PyDict [])])]
         \<and> out = backend_solve sym_backend ex_linear_args [(''solver_parameters'', PyDict [])]"
    by (simp add: ex_world_def)
  show ?thesis
    using 1 3 by (simp add: r)
qed

end
